theory Spec2Isabelle
  imports Complex_Main "HOL-Library.Sublist"
begin

section \<open>Time\<close>

text \<open>
  Go's \<^verbatim>\<open>time.Time\<close> is modelled as the number of nanoseconds since the Unix epoch and a
  \<^verbatim>\<open>time.Duration\<close> as a number of nanoseconds. \<^verbatim>\<open>t.Unix()\<close> drops the sub-second
  part, \<^verbatim>\<open>time.Unix(sec, 0)\<close> is the start of second \<open>sec\<close>. The integers are unbounded:
  no claim depends on the 64-bit range of the clock.
\<close>

type_synonym time = int

definition Second :: int where
  "Second = 1000000000"

definition Minute :: int where
  "Minute = 60 * Second"

definition Hour :: int where
  "Hour = 60 * Minute"

definition Unix :: "time \<Rightarrow> int" where
  "Unix t = t div Second"

definition time_Unix :: "int \<Rightarrow> time" where
  "time_Unix sec = sec * Second"

definition After :: "time \<Rightarrow> time \<Rightarrow> bool" where
  "After t u = (u < t)"

text \<open>
  A number decoded from JSON is a \<^verbatim>\<open>float64\<close> in Go; it is modelled by the rational it
  denotes. The conversion \<^verbatim>\<open>int64(x)\<close> of a \<^verbatim>\<open>float64\<close> drops the fraction, towards
  zero. For a value outside the 64-bit range Go leaves the result to the implementation;
  \<open>representable\<close> says that a value is inside the range, and the model's conversion is
  the program's on representable values only.
\<close>

definition int64 :: "rat \<Rightarrow> int" where
  "int64 x = (if 0 \<le> x then \<lfloor>x\<rfloor> else \<lceil>x\<rceil>)"

definition representable :: "rat \<Rightarrow> bool" where
  "representable x = (- 9223372036854775808 \<le> int64 x \<and> int64 x \<le> 9223372036854775807)"

section \<open>Errors and results\<close>

text \<open>
  The packages \<^verbatim>\<open>cerror\<close> and \<^verbatim>\<open>global\<close> are used by every source file but their
  declarations are not among them. Each friendly-message constant of \<^verbatim>\<open>global\<close> is a
  constructor of its own (the texts are unknown and no claim reads them); \<open>FRIENDLY_BLANK\<close>
  is the empty message \<^verbatim>\<open>""\<close> that \<^verbatim>\<open>ResetPassword\<close> passes. A \<^verbatim>\<open>cerror.Error\<close> carries
  the tag, the wrapped error (possibly \<^verbatim>\<open>nil\<close>), the friendly message and a type that
  \<^verbatim>\<open>NewAndPrintWithTag\<close> leaves at its default until the caller assigns one.
\<close>

datatype friendly =
    FRIENDLY_MESSAGE
  | FRIENDLY_INVALID_USNME_PASSWORD
  | FRIENDLY_EMAIL_NOT_VERIFIED
  | FRIENDLY_INVALID_TOKEN
  | FRIENDLY_TOKEN_EXPIRED
  | FRIENDLY_INVALID_EMAIL
  | FRIENDLY_DUPLICATE_EMAIL
  | FRIENDLY_BLANK

datatype cerror_type = TYPE_DEFAULT | TYPE_UNAUTHORIZED | TYPE_EXPIRED | TYPE_NOT_FOUND

text \<open>The bits of \<^verbatim>\<open>jwt.ValidationError.Errors\<close> that the parser can set here.\<close>

datatype validation_flag =
    ValidationErrorMalformed
  | ValidationErrorSignatureInvalid
  | ValidationErrorExpired
  | ValidationErrorIssuedAt
  | ValidationErrorNotValidYet

text \<open>
  A point at which a database transaction of the repository can fail, and the failure of
  any other collaborator call (Redis, SMTP), which has a single failure point.
\<close>

datatype fault = AtBegin | AtPrepare | AtExec | AtCommit

datatype go_error =
    errors_New string
  | sql_ErrNoRows
  | driver_error fault
  | io_error string
  | ErrMismatchedHashAndPassword
  | ErrHashTooShort
  | ErrPasswordTooLong
  | ValidationError "validation_flag list"
  | CError string "go_error option" friendly cerror_type

definition NewAndPrintWithTag :: "string \<Rightarrow> go_error option \<Rightarrow> friendly \<Rightarrow> go_error" where
  "NewAndPrintWithTag tag err msg = CError tag err msg TYPE_DEFAULT"

fun set_Type :: "go_error \<Rightarrow> cerror_type \<Rightarrow> go_error" where
  "set_Type (CError tag err msg _) ty = CError tag err msg ty"
| "set_Type e _ = e"

text \<open>
  What a call of a use case does: it panics (a failed single-value type assertion), it
  returns a non-nil error, or it returns its value.
\<close>

datatype 'a result = Panic | Error go_error | Return 'a

section \<open>Secret Hasher\<close>

text \<open>
  \<^verbatim>\<open>golang.org/x/crypto/bcrypt\<close> is a third-party library. It is modelled symbolically: a
  hash string is either the bcrypt hash of some key material under a cost and the
  library's own random salt, or a string that is no bcrypt hash. The key material is what
  the Blowfish key expansion reads of the password: bcrypt appends a NUL byte to the
  password, and the expansion reads the result cyclically, 72 bytes in all. On the key
  material the hash is taken to be free of collisions. Releases of the library differ on
  passwords of more than 72 bytes when hashing: the older ones hash them like any other,
  the newer ones return \<^verbatim>\<open>ErrPasswordTooLong\<close>; comparing accepts them in both. The release
  is not fixed by the source files, so it is a parameter (\<open>bcrypt_rejects_long\<close>).
\<close>

datatype hash = Bcrypt nat string string | NotBcrypt string

definition SALT_BYTES :: nat where
  "SALT_BYTES = 32"

definition MinCost :: nat where
  "MinCost = 4"

definition NUL :: char where
  "NUL = CHR 0x00"

definition bcrypt_key :: "string \<Rightarrow> string" where
  "bcrypt_key password = take 72 (concat (replicate 72 (password @ [NUL])))"

text \<open>
  The surroundings of one call: the clock, the process configuration and the values that
  the call draws from entropy sources. \<open>entropy\<close> is what \<^verbatim>\<open>io.ReadFull(rand.Reader, salt)\<close>
  can read (\<open>None\<close>: the read fails), \<open>bcrypt_entropy\<close> the salt bcrypt draws for itself,
  \<open>uuid_1\<close> and \<open>uuid_2\<close> the identifiers that \<^verbatim>\<open>uuid.New()\<close> and
  \<^verbatim>\<open>util.GenerateUUID()\<close> return, in the order of the calls. All instants that one call
  reads from the clock are identified with \<open>now\<close>.
\<close>

record env =
  now :: time
  JWT_SECRET :: string
  FEHost :: string
  EmailVerification_Subject :: string
  ResetPassword_Subject :: string
  entropy :: "string option"
  bcrypt_entropy :: "string option"
  bcrypt_rejects_long :: bool
  uuid_1 :: string
  uuid_2 :: string

definition GenerateFromPassword :: "env \<Rightarrow> string \<Rightarrow> nat \<Rightarrow> go_error + hash" where
  "GenerateFromPassword e password cost =
     (if bcrypt_rejects_long e \<and> 72 < length password then Inl ErrPasswordTooLong
      else case bcrypt_entropy e of
             None \<Rightarrow> Inl (io_error ''rand'')
           | Some s \<Rightarrow> Inr (Bcrypt cost s (bcrypt_key password)))"

fun CompareHashAndPassword :: "hash \<Rightarrow> string \<Rightarrow> go_error option" where
  "CompareHashAndPassword (NotBcrypt _) password = Some ErrHashTooShort"
| "CompareHashAndPassword (Bcrypt cost s k) password =
     (if bcrypt_key password = k then None else Some ErrMismatchedHashAndPassword)"

text \<open>\<^verbatim>\<open>io.ReadFull\<close> fills the \<open>SALT_BYTES\<close> bytes of the salt or fails.\<close>

definition generateSalt :: "env \<Rightarrow> go_error + string" where
  "generateSalt e =
     (case entropy e of
        None \<Rightarrow> Inl (NewAndPrintWithTag ''GSA00'' (Some (io_error ''rand'')) FRIENDLY_MESSAGE)
      | Some bytes \<Rightarrow>
          if length bytes < SALT_BYTES
          then Inl (NewAndPrintWithTag ''GSA00'' (Some (io_error ''rand'')) FRIENDLY_MESSAGE)
          else Inr (take SALT_BYTES bytes))"

definition hashPassword :: "env \<Rightarrow> string \<Rightarrow> string \<Rightarrow> go_error + hash" where
  "hashPassword e password salt =
     (let saltedPassword = password @ salt in
      case GenerateFromPassword e saltedPassword MinCost of
        Inl err \<Rightarrow> Inl (NewAndPrintWithTag ''HPA00'' (Some err) FRIENDLY_MESSAGE)
      | Inr h \<Rightarrow> Inr h)"

definition comparePassword :: "string \<Rightarrow> string \<Rightarrow> hash \<Rightarrow> go_error option \<times> bool" where
  "comparePassword passwordInput salt storedPassword =
     (let saltedPassword = passwordInput @ salt in
      case CompareHashAndPassword storedPassword saltedPassword of
        Some err \<Rightarrow>
          (Some (NewAndPrintWithTag ''CPA00'' (Some err) FRIENDLY_INVALID_USNME_PASSWORD), False)
      | None \<Rightarrow> (None, True))"

section \<open>Token Codec\<close>

text \<open>
  \<^verbatim>\<open>github.com/dgrijalva/jwt-go\<close> is a third-party library, modelled symbolically. A claim
  value is a JSON value. A number is the \<^verbatim>\<open>float64\<close> read back when a token is parsed; an
  \<^verbatim>\<open>int64\<close> written when a token is minted is the number \<open>of_int n\<close> (the timestamps
  written here are far below \<open>2^53\<close>, where \<^verbatim>\<open>float64\<close> is exact). A \<^verbatim>\<open>jwt.MapClaims\<close> is a
  map from claim names to values. A token string is either the compact serialisation of a claim set
  signed with a key by one of the HMAC methods, or a string that is no such serialisation
  (the blank string among them). The serialisation writes the claims in the order of their
  names and HMAC is deterministic, so the string is determined by the method, the claim
  set and the key; signatures cannot be forged without the key.
\<close>

datatype json =
    JString string
  | JNumber rat
  | JBool bool
  | JNull
  | JArray "json list"
  | JObject "(string \<times> json) list"

type_synonym MapClaims = "string \<rightharpoonup> json"

datatype SigningMethod = SigningMethodHS256 | SigningMethodHS384 | SigningMethodHS512

datatype token = JWT SigningMethod MapClaims string | Opaque string

definition blank :: token where
  "blank = Opaque []"

definition SignedString :: "SigningMethod \<Rightarrow> MapClaims \<Rightarrow> string \<Rightarrow> token" where
  "SignedString method claims key = JWT method claims key"

text \<open>
  \<^verbatim>\<open>MapClaims.Valid\<close> of the library, called by the parser unless claims validation is
  switched off (the source never switches it off): \<open>exp\<close>, \<open>iat\<close> and \<open>nbf\<close> are
  converted with \<^verbatim>\<open>int64\<close> and compared with the current Unix second when they are
  numbers; a claim that is absent, has another type or converts to \<open>0\<close> passes, as none of
  them is required.
\<close>

definition verifyExp :: "int \<Rightarrow> int \<Rightarrow> bool \<Rightarrow> bool" where
  "verifyExp expiry now_sec required =
     (if expiry = 0 then \<not> required else now_sec \<le> expiry)"

definition verifyIat :: "int \<Rightarrow> int \<Rightarrow> bool \<Rightarrow> bool" where
  "verifyIat iat now_sec required = (if iat = 0 then \<not> required else iat \<le> now_sec)"

definition verifyNbf :: "int \<Rightarrow> int \<Rightarrow> bool \<Rightarrow> bool" where
  "verifyNbf nbf now_sec required = (if nbf = 0 then \<not> required else nbf \<le> now_sec)"

definition VerifyExpiresAt :: "MapClaims \<Rightarrow> int \<Rightarrow> bool \<Rightarrow> bool" where
  "VerifyExpiresAt m cmp req =
     (case m ''exp'' of Some (JNumber expiry) \<Rightarrow> verifyExp (int64 expiry) cmp req | _ \<Rightarrow> \<not> req)"

definition VerifyIssuedAt :: "MapClaims \<Rightarrow> int \<Rightarrow> bool \<Rightarrow> bool" where
  "VerifyIssuedAt m cmp req =
     (case m ''iat'' of Some (JNumber iat) \<Rightarrow> verifyIat (int64 iat) cmp req | _ \<Rightarrow> \<not> req)"

definition VerifyNotBefore :: "MapClaims \<Rightarrow> int \<Rightarrow> bool \<Rightarrow> bool" where
  "VerifyNotBefore m cmp req =
     (case m ''nbf'' of Some (JNumber nbf) \<Rightarrow> verifyNbf (int64 nbf) cmp req | _ \<Rightarrow> \<not> req)"

definition Valid :: "time \<Rightarrow> MapClaims \<Rightarrow> validation_flag list" where
  "Valid t m =
     (let now_sec = Unix t in
      (if VerifyExpiresAt m now_sec False then [] else [ValidationErrorExpired]) @
      (if VerifyIssuedAt m now_sec False then [] else [ValidationErrorIssuedAt]) @
      (if VerifyNotBefore m now_sec False then [] else [ValidationErrorNotValidYet]))"

text \<open>
  \<^verbatim>\<open>jwt.ParseWithClaims(tokenString, claims, keyFunc)\<close> with a key function that returns
  \<open>key\<close>: the claims are decoded into \<open>claims\<close> first, then validated, then the signature
  is verified; the error is \<^verbatim>\<open>nil\<close> only when no flag is raised. The decoded claims are
  returned beside the error, as the source's \<^verbatim>\<open>parseJWT\<close> returns them.
\<close>

fun ParseWithClaims :: "time \<Rightarrow> token \<Rightarrow> string \<Rightarrow> MapClaims \<times> go_error option" where
  "ParseWithClaims t (Opaque _) key =
     (Map.empty, Some (ValidationError [ValidationErrorMalformed]))"
| "ParseWithClaims t (JWT method claims k) key =
     (let flags = Valid t claims @ (if k = key then [] else [ValidationErrorSignatureInvalid])
      in (claims, if flags = [] then None else Some (ValidationError flags)))"

text \<open>The codec of \<^verbatim>\<open>src/auth/usecase/auth_usecase.go\<close>, where it is part of the use case.\<close>

definition parseJWT :: "env \<Rightarrow> token \<Rightarrow> MapClaims \<times> go_error option" where
  "parseJWT e tokenString = ParseWithClaims (now e) tokenString (JWT_SECRET e)"

definition createResetPasswordToken :: "env \<Rightarrow> string \<Rightarrow> go_error + token" where
  "createResetPasswordToken e email =
     (let claims = [''email'' \<mapsto> JString email,
                    ''exp'' \<mapsto> JNumber (of_int (Unix (now e + 24 * Hour)))]
      in Inr (SignedString SigningMethodHS256 claims (JWT_SECRET e)))"

text \<open>
  Modelled from the spec: \<^verbatim>\<open>helper.JWTHelper\<close> (\<^verbatim>\<open>CreateToken\<close>, \<^verbatim>\<open>ParseToken\<close>,
  \<^verbatim>\<open>CreateTokenPair\<close>) and \<^verbatim>\<open>helper.JWTWrapper\<close> are not among the source files. Section
  4.2 of the spec has \<open>mint(claims, secret)\<close> sign a claim set with the symmetric secret
  and \<open>parse(tokenString, secret)\<close> verify signature and structure. They are the codec
  that the earlier revision of the use case has inline (\<^verbatim>\<open>SignedString\<close> with HS256 under
  \<^verbatim>\<open>JWT_SECRET\<close>, and \<^verbatim>\<open>parseJWT\<close>), which the helper replaced; the parse error includes
  expiry, as the comment in \<^verbatim>\<open>RefreshToken\<close> says of \<^verbatim>\<open>ParseToken\<close>.
\<close>

record JWTWrapper =
  AccessToken :: token
  RefreshTokenStr :: token
  RefreshTokenExpTime :: time

definition CreateToken :: "env \<Rightarrow> MapClaims \<Rightarrow> go_error + token" where
  "CreateToken e claims = Inr (SignedString SigningMethodHS256 claims (JWT_SECRET e))"

definition ParseToken :: "env \<Rightarrow> token \<Rightarrow> MapClaims \<times> go_error option" where
  "ParseToken e tokenString = ParseWithClaims (now e) tokenString (JWT_SECRET e)"

definition CreateTokenPair :: "env \<Rightarrow> MapClaims \<Rightarrow> MapClaims \<Rightarrow> go_error + JWTWrapper" where
  "CreateTokenPair e accessTokenClaims refreshTokenClaims =
     (case CreateToken e accessTokenClaims of
        Inl err \<Rightarrow> Inl err
      | Inr accessToken \<Rightarrow>
          (case CreateToken e refreshTokenClaims of
             Inl err \<Rightarrow> Inl err
           | Inr refreshToken \<Rightarrow>
               Inr \<lparr>AccessToken = accessToken, RefreshTokenStr = refreshToken,
                    RefreshTokenExpTime = 0\<rparr>))"

section \<open>Data model and collaborators\<close>

text \<open>
  \<^verbatim>\<open>domain.Account\<close> with the fields that the repository reads and writes. The struct is
  used in two roles: as the input of \<^verbatim>\<open>Login\<close> and \<^verbatim>\<open>SignUp\<close> its \<open>Password\<close> is the
  plaintext, as a row of the table it is the hash; the type of the field is a parameter.
\<close>

record 'p Account =
  AccountID :: string
  Password :: 'p
  Email :: string
  Salt :: string
  EmailToken :: token
  IsVerified :: bool
  PasswordToken :: token

record AccountFilter =
  filter_Email :: string
  filter_AccountID :: string

record Profile =
  ProfileID :: string
  FullName :: string
  Profile_AccountID :: string

record ProfileFilter =
  filter_Profile_AccountID :: string

text \<open>
  A link built by \<^verbatim>\<open>fmt.Sprintf("%s/...?token=%s", host, token)\<close>: the host, the path up to
  the token, and the token. A mail handed to the sender: recipients, subject, and the
  message, which is a template of \<^verbatim>\<open>global\<close> filled with a link.
\<close>

datatype url = Url (url_host: string) (url_path: string) (url_token: token)

datatype template = VERIFY_EMAIL_TEMPLATE | RESET_PASSWORD_TEMPLATE

record mail =
  mail_to :: "string list"
  mail_subject :: string
  mail_template :: template
  mail_url :: url

text \<open>
  The shared state: the rows of the account and profile tables in the order of insertion,
  the Session Store, the mails sent, and the failures that the collaborators are going to
  have. Every call of a collaborator takes the head of \<open>faults\<close>: \<open>None\<close> lets the call
  through, \<open>Some f\<close> makes it fail (at point \<open>f\<close> for a database transaction); an empty
  list lets every call through.
\<close>

record world =
  accounts :: "hash Account list"
  profiles :: "Profile list"
  sessions :: "string \<rightharpoonup> token \<times> int"
  outbox :: "mail list"
  faults :: "fault option list"

definition io :: "world \<Rightarrow> fault option \<times> world" where
  "io w = (case faults w of [] \<Rightarrow> (None, w) | f # fs \<Rightarrow> (f, w\<lparr>faults := fs\<rparr>))"

subsection \<open>Account repository (MySQL)\<close>

text \<open>
  The query builder's \<^verbatim>\<open>ToSql\<close> cannot fail on the fixed queries of the repository, so
  the branches \<open>GA00\<close>, \<open>IA00\<close>, \<open>UIV00\<close>, \<open>USP00\<close> and \<open>UPT00\<close> have no counterpart.
  \<^verbatim>\<open>QueryRow\<close> yields the first row that satisfies the conditions.
\<close>

definition matches :: "AccountFilter \<Rightarrow> hash Account \<Rightarrow> bool" where
  "matches f a =
     ((if filter_Email f \<noteq> [] then Email a = filter_Email f else True) \<and>
      (if filter_AccountID f \<noteq> [] then AccountID a = filter_AccountID f else True))"

definition GetAccount :: "world \<Rightarrow> AccountFilter \<Rightarrow> (go_error + hash Account) \<times> world" where
  "GetAccount w f =
     (case io w of
        (Some ft, w') \<Rightarrow>
          (Inl (NewAndPrintWithTag ''GA02'' (Some (driver_error ft)) FRIENDLY_MESSAGE), w')
      | (None, w') \<Rightarrow>
          (case filter (matches f) (accounts w') of
             [] \<Rightarrow> (Inl (NewAndPrintWithTag ''GA02'' (Some sql_ErrNoRows) FRIENDLY_MESSAGE), w')
           | account # _ \<Rightarrow> (Inr account, w')))"

text \<open>
  The table's unique keys are not among the source files. By the spec the email is unique
  and the account id is the record's unique id: an insert that repeats either is MySQL
  error 1062.
\<close>

definition duplicate_entry :: "hash Account \<Rightarrow> hash Account list \<Rightarrow> bool" where
  "duplicate_entry a rows =
     list_ex (\<lambda>r. Email r = Email a \<or> AccountID r = AccountID a) rows"

definition InsertAccount ::
  "env \<Rightarrow> world \<Rightarrow> hash Account \<Rightarrow> (go_error + hash Account) \<times> world" where
  "InsertAccount e w account0 =
     (let account = (if AccountID account0 = [] then account0\<lparr>AccountID := uuid_2 e\<rparr>
                     else account0)
      in case io w of
           (Some AtBegin, w') \<Rightarrow>
             (Inl (NewAndPrintWithTag ''IA01'' (Some (driver_error AtBegin)) FRIENDLY_MESSAGE), w')
         | (Some AtPrepare, w') \<Rightarrow>
             (Inl (NewAndPrintWithTag ''IA02'' (Some (driver_error AtPrepare)) FRIENDLY_MESSAGE), w')
         | (Some AtExec, w') \<Rightarrow>
             (Inl (NewAndPrintWithTag ''IA05'' (Some (driver_error AtExec)) FRIENDLY_MESSAGE), w')
         | (Some AtCommit, w') \<Rightarrow>
             (Inl (NewAndPrintWithTag ''IA04'' (Some (driver_error AtCommit)) FRIENDLY_MESSAGE), w')
         | (None, w') \<Rightarrow>
             (if duplicate_entry account (accounts w')
              then (Inl (NewAndPrintWithTag ''IA03'' (Some (driver_error AtExec))
                           FRIENDLY_DUPLICATE_EMAIL), w')
              else (Inr account, w'\<lparr>accounts := accounts w' @ [account]\<rparr>)))"

text \<open>
  The three updates share their shape: one transaction that changes every row with the
  given account id, with an error tag per point of failure.
\<close>

fun tx_tag :: "string \<Rightarrow> fault \<Rightarrow> string" where
  "tx_tag tag AtBegin = tag @ ''01''"
| "tx_tag tag AtPrepare = tag @ ''02''"
| "tx_tag tag AtExec = tag @ ''03''"
| "tx_tag tag AtCommit = tag @ ''04''"

definition update_where ::
  "string \<Rightarrow> string \<Rightarrow> (hash Account \<Rightarrow> hash Account) \<Rightarrow> world \<Rightarrow> go_error option \<times> world" where
  "update_where tag accountId change w =
     (case io w of
        (Some ft, w') \<Rightarrow>
          (Some (NewAndPrintWithTag (tx_tag tag ft) (Some (driver_error ft)) FRIENDLY_MESSAGE), w')
      | (None, w') \<Rightarrow>
          (None, w'\<lparr>accounts :=
                      map (\<lambda>r. if AccountID r = accountId then change r else r) (accounts w')\<rparr>))"

definition UpdateIsVerified :: "world \<Rightarrow> string \<Rightarrow> bool \<Rightarrow> go_error option \<times> world" where
  "UpdateIsVerified w accountId isVerified =
     update_where ''UIV'' accountId (\<lambda>r. r\<lparr>IsVerified := isVerified\<rparr>) w"

definition UpdateSaltAndPassword :: "world \<Rightarrow> hash Account \<Rightarrow> go_error option \<times> world" where
  "UpdateSaltAndPassword w account =
     update_where ''USP'' (AccountID account)
       (\<lambda>r. r\<lparr>Salt := Salt account, Password := Password account\<rparr>) w"

definition UpdatePasswordToken :: "world \<Rightarrow> string \<Rightarrow> token \<Rightarrow> go_error option \<times> world" where
  "UpdatePasswordToken w accountId passwordToken =
     update_where ''UPT'' accountId (\<lambda>r. r\<lparr>PasswordToken := passwordToken\<rparr>) w"

subsection \<open>Profile repository\<close>

text \<open>
  Modelled from the spec: the implementation of \<^verbatim>\<open>domain.IProfileRepository\<close> is not among
  the source files. Section 6 of the spec has \<open>insert(Profile)\<close> and
  \<open>get(filter: accountId) -> Profile\<close>, and section 7 has \<open>NotFound\<close> for an absent
  profile.
\<close>

definition InsertProfile :: "world \<Rightarrow> Profile \<Rightarrow> go_error option \<times> world" where
  "InsertProfile w profile =
     (case io w of
        (Some ft, w') \<Rightarrow> (Some (driver_error ft), w')
      | (None, w') \<Rightarrow> (None, w'\<lparr>profiles := profiles w' @ [profile]\<rparr>))"

definition GetProfile :: "world \<Rightarrow> ProfileFilter \<Rightarrow> (go_error + Profile) \<times> world" where
  "GetProfile w f =
     (case io w of
        (Some ft, w') \<Rightarrow> (Inl (driver_error ft), w')
      | (None, w') \<Rightarrow>
          (case filter (\<lambda>p. Profile_AccountID p = filter_Profile_AccountID f) (profiles w') of
             [] \<Rightarrow> (Inl sql_ErrNoRows, w')
           | profile # _ \<Rightarrow> (Inr profile, w')))"

subsection \<open>Session Store and mail sender\<close>

text \<open>
  Modelled from the spec: \<^verbatim>\<open>helper.RedisHelper\<close> is not among the source files. Section 4.3
  of the spec has \<open>put(sessionId, tokenValue, ttlSeconds)\<close> record a live session,
  overwriting allowed; \<open>get(sessionId)\<close> return the token value or empty; and
  \<open>delete(sessionId)\<close> revoke immediately. The third argument of \<open>put\<close> is kept with the
  entry. The expiry of entries by the store itself is left out: a lookup here is a lookup
  before any entry has expired. A call that fails leaves the store as it was.
\<close>

definition RedisHelper_Set :: "world \<Rightarrow> string \<Rightarrow> token \<Rightarrow> int \<Rightarrow> go_error option \<times> world" where
  "RedisHelper_Set w k v ttl =
     (case io w of
        (Some ft, w') \<Rightarrow> (Some (io_error ''redis''), w')
      | (None, w') \<Rightarrow> (None, w'\<lparr>sessions := (sessions w')(k \<mapsto> (v, ttl))\<rparr>))"

definition RedisHelper_Get :: "world \<Rightarrow> string \<Rightarrow> (token \<times> go_error option) \<times> world" where
  "RedisHelper_Get w k =
     (case io w of
        (Some ft, w') \<Rightarrow> ((blank, Some (io_error ''redis'')), w')
      | (None, w') \<Rightarrow>
          (case sessions w' k of
             None \<Rightarrow> ((blank, None), w')
           | Some (v, ttl) \<Rightarrow> ((v, None), w')))"

definition RedisHelper_Delete :: "world \<Rightarrow> string \<Rightarrow> go_error option \<times> world" where
  "RedisHelper_Delete w k =
     (case io w of
        (Some ft, w') \<Rightarrow> (Some (io_error ''redis''), w')
      | (None, w') \<Rightarrow> (None, w'\<lparr>sessions := (sessions w')(k := None)\<rparr>))"

text \<open>
  Modelled from the spec: \<^verbatim>\<open>helper.IEMail\<close> is not among the source files. Section 6 of the
  spec has \<open>send(recipients, subject, body) -> error\<close>.
\<close>

definition SendMail :: "world \<Rightarrow> mail \<Rightarrow> go_error option \<times> world" where
  "SendMail w m =
     (case io w of
        (Some ft, w') \<Rightarrow> (Some (io_error ''smtp''), w')
      | (None, w') \<Rightarrow> (None, w'\<lparr>outbox := outbox w' @ [m]\<rparr>))"

section \<open>Credential Lifecycle Manager\<close>

text \<open>
  The use cases of \<^verbatim>\<open>AuthUsecase\<close> in its latest revision (\<^verbatim>\<open>src/unnamed/part_002\<close>). Each
  takes the surroundings and the shared state and returns its result with the state it
  leaves. A single-value type assertion on a claim panics when the claim is absent or of
  another type. The repository never returns a nil account without an error, so the
  branches for a nil account (\<open>LGU02\<close>, \<open>SGU00\<close>) have no counterpart.
\<close>

definition generateEmailConfirmationUrl :: "env \<Rightarrow> hash Account \<Rightarrow> url" where
  "generateEmailConfirmationUrl e account =
     Url (FEHost e) ''/email_confirmation?token='' (EmailToken account)"

definition generateResetPasswordUrl :: "env \<Rightarrow> token \<Rightarrow> url" where
  "generateResetPasswordUrl e tok = Url (FEHost e) ''/change_password?token='' tok"

definition createTokenPair ::
  "env \<Rightarrow> world \<Rightarrow> hash Account \<Rightarrow> Profile \<Rightarrow> JWTWrapper result \<times> world" where
  "createTokenPair e w account profile =
     (let accessTokenClaims =
            [''authorized'' \<mapsto> JBool True,
             ''account_id'' \<mapsto> JString (AccountID account),
             ''access_uuid'' \<mapsto> JString (uuid_1 e),
             ''email'' \<mapsto> JString (Email account),
             ''exp'' \<mapsto> JNumber (of_int (Unix (now e + 15 * Minute))),
             ''full_name'' \<mapsto> JString (FullName profile)];
          rtExp = now e + 1 * Hour;
          refreshTokenClaims =
            [''account_id'' \<mapsto> JString (AccountID account),
             ''refresh_uuid'' \<mapsto> JString (uuid_2 e),
             ''exp'' \<mapsto> JNumber (of_int (Unix rtExp))]
      in case CreateTokenPair e accessTokenClaims refreshTokenClaims of
           Inl err \<Rightarrow> (Error err, w)
         | Inr token0 \<Rightarrow>
             (let token = token0\<lparr>RefreshTokenExpTime := rtExp\<rparr> in
              case RedisHelper_Set w (uuid_1 e) (AccessToken token) (Unix (now e + 15 * Minute)) of
                (Some err, w1) \<Rightarrow> (Error err, w1)
              | (None, w1) \<Rightarrow>
                  (case RedisHelper_Set w1 (uuid_2 e) (RefreshTokenStr token) (Unix rtExp) of
                     (Some err, w2) \<Rightarrow> (Error err, w2)
                   | (None, w2) \<Rightarrow> (Return token, w2))))"

definition Login :: "env \<Rightarrow> world \<Rightarrow> string Account \<Rightarrow> JWTWrapper result \<times> world" where
  "Login e w account =
     (case GetAccount w \<lparr>filter_Email = Email account, filter_AccountID = []\<rparr> of
        (Inl err, w1) \<Rightarrow> (Error err, w1)
      | (Inr regAccount, w1) \<Rightarrow>
          (case comparePassword (Password account) (Salt regAccount) (Password regAccount) of
             (err, ok) \<Rightarrow>
               if \<not> (ok \<and> err = None)
               then (Error (set_Type
                       (NewAndPrintWithTag ''LGU03''
                          (Some (errors_New (''incorrect password for email :'' @ Email account)))
                          FRIENDLY_INVALID_USNME_PASSWORD)
                       TYPE_UNAUTHORIZED), w1)
               else if \<not> IsVerified regAccount
               then (Error (NewAndPrintWithTag ''LGU04''
                       (Some (errors_New
                          (''email '' @ Email regAccount @ '' has not been verified'')))
                       FRIENDLY_EMAIL_NOT_VERIFIED), w1)
               else (case GetProfile w1 \<lparr>filter_Profile_AccountID = AccountID regAccount\<rparr> of
                       (Inl err, w2) \<Rightarrow> (Error err, w2)
                     | (Inr regProfile, w2) \<Rightarrow> createTokenPair e w2 regAccount regProfile)))"

definition SignUp ::
  "env \<Rightarrow> world \<Rightarrow> string Account \<Rightarrow> Profile \<Rightarrow> (hash Account \<times> Profile) result \<times> world" where
  "SignUp e w account profile =
     (case generateSalt e of
        Inl err \<Rightarrow> (Error err, w)
      | Inr salt \<Rightarrow>
     (case hashPassword e (Password account) salt of
        Inl err \<Rightarrow> (Error err, w)
      | Inr hashed \<Rightarrow>
     (let emailTokenClaims =
            [''account_id'' \<mapsto> JString (uuid_1 e),
             ''email'' \<mapsto> JString (Email account),
             ''exp'' \<mapsto> JNumber (of_int (Unix (now e + 15 * Minute)))]
      in
      case CreateToken e emailTokenClaims of
        Inl err \<Rightarrow> (Error err, w)
      | Inr emailToken \<Rightarrow>
     (case InsertAccount e w
             \<lparr>AccountID = AccountID account, Password = hashed, Email = Email account,
              Salt = salt, EmailToken = emailToken, IsVerified = IsVerified account,
              PasswordToken = PasswordToken account\<rparr> of
        (Inl err, w1) \<Rightarrow> (Error err, w1)
      | (Inr insertedAccount, w1) \<Rightarrow>
     (let profile1 = profile\<lparr>Profile_AccountID := AccountID insertedAccount\<rparr> in
      case InsertProfile w1 profile1 of
        (Some err, w2) \<Rightarrow> (Error err, w2)
      | (None, w2) \<Rightarrow>
     (case SendMail w2
             \<lparr>mail_to = [Email insertedAccount],
              mail_subject = EmailVerification_Subject e,
              mail_template = VERIFY_EMAIL_TEMPLATE,
              mail_url = generateEmailConfirmationUrl e insertedAccount\<rparr> of
        (Some err, w3) \<Rightarrow> (Error err, w3)
      | (None, w3) \<Rightarrow> (Return (insertedAccount, profile1), w3)))))))"

definition RefreshToken :: "env \<Rightarrow> world \<Rightarrow> token \<Rightarrow> JWTWrapper result \<times> world" where
  "RefreshToken e w refreshToken =
     (case ParseToken e refreshToken of
        (mapClaims, Some err) \<Rightarrow> (Error err, w)
      | (mapClaims, None) \<Rightarrow>
          (case mapClaims ''refresh_uuid'' of
             Some (JString refresh_uuid) \<Rightarrow>
               (case RedisHelper_Get w refresh_uuid of
                  ((rtRedis, ignored), w1) \<Rightarrow>
                    if rtRedis = blank
                    then (Error (set_Type
                            (NewAndPrintWithTag ''RTU00'' (Some (errors_New ''token_expired''))
                               FRIENDLY_TOKEN_EXPIRED)
                            TYPE_EXPIRED), w1)
                    else (case mapClaims ''account_id'' of
                            Some (JString accountID) \<Rightarrow>
                              (case GetAccount w1
                                      \<lparr>filter_Email = [], filter_AccountID = accountID\<rparr> of
                                 (Inl err, w2) \<Rightarrow> (Error err, w2)
                               | (Inr account, w2) \<Rightarrow>
                                   (case GetProfile w2 \<lparr>filter_Profile_AccountID = accountID\<rparr> of
                                      (Inl err, w3) \<Rightarrow> (Error err, w3)
                                    | (Inr profile, w3) \<Rightarrow> createTokenPair e w3 account profile))
                          | _ \<Rightarrow> (Panic, w1)))
           | _ \<Rightarrow> (Panic, w)))"

definition VerifyEmail :: "env \<Rightarrow> world \<Rightarrow> token \<Rightarrow> unit result \<times> world" where
  "VerifyEmail e w tok =
     (case ParseToken e tok of
        (payload, Some err) \<Rightarrow>
          (Error (NewAndPrintWithTag ''VEA00'' (Some err) FRIENDLY_INVALID_TOKEN), w)
      | (payload, None) \<Rightarrow>
          (case payload ''exp'' of
             Some (JNumber expire) \<Rightarrow>
               (case payload ''email'' of
                  Some (JString email) \<Rightarrow>
                    if After (now e) (time_Unix (int64 expire))
                    then (Error (NewAndPrintWithTag ''VEA02'' None FRIENDLY_TOKEN_EXPIRED), w)
                    else (case GetAccount w \<lparr>filter_Email = email, filter_AccountID = []\<rparr> of
                            (Inl err, w1) \<Rightarrow> (Error err, w1)
                          | (Inr account, w1) \<Rightarrow>
                              (case UpdateIsVerified w1 (AccountID account) True of
                                 (Some err, w2) \<Rightarrow> (Error err, w2)
                               | (None, w2) \<Rightarrow> (Return (), w2)))
                | _ \<Rightarrow> (Panic, w))
           | _ \<Rightarrow> (Panic, w)))"

definition ResetPassword :: "env \<Rightarrow> world \<Rightarrow> string \<Rightarrow> unit result \<times> world" where
  "ResetPassword e w email =
     (let claims = [''email'' \<mapsto> JString email,
                    ''exp'' \<mapsto> JNumber (of_int (Unix (now e + 24 * Hour)))]
      in
      case CreateToken e claims of
        Inl err \<Rightarrow> (Error err, w)
      | Inr tok \<Rightarrow>
          (case GetAccount w \<lparr>filter_Email = email, filter_AccountID = []\<rparr> of
             (Inr account, w1) \<Rightarrow>
               if \<not> IsVerified account
               then (Error (NewAndPrintWithTag ''RPA01''
                       (Some (errors_New (''email '' @ Email account @ '' has not been verified'')))
                       FRIENDLY_EMAIL_NOT_VERIFIED), w1)
               else (case UpdatePasswordToken w1 (AccountID account) tok of
                       (Some err, w2) \<Rightarrow> (Error err, w2)
                     | (None, w2) \<Rightarrow>
                         (case SendMail w2
                                 \<lparr>mail_to = [email],
                                  mail_subject = ResetPassword_Subject e,
                                  mail_template = RESET_PASSWORD_TEMPLATE,
                                  mail_url = generateResetPasswordUrl e tok\<rparr> of
                            (Some err, w3) \<Rightarrow> (Error err, w3)
                          | (None, w3) \<Rightarrow> (Return (), w3)))
           | (Inl err, w1) \<Rightarrow>
               (Error (set_Type
                  (NewAndPrintWithTag ''RPA00''
                     (Some (errors_New (''email '' @ email @ '' is not found''))) FRIENDLY_BLANK)
                  TYPE_NOT_FOUND), w1)))"

definition ChangePassword :: "env \<Rightarrow> world \<Rightarrow> token \<Rightarrow> string \<Rightarrow> unit result \<times> world" where
  "ChangePassword e w tok password =
     (case ParseToken e tok of
        (payload, Some err) \<Rightarrow>
          (Error (NewAndPrintWithTag ''CPW00'' (Some err) FRIENDLY_INVALID_TOKEN), w)
      | (payload, None) \<Rightarrow>
          (case payload ''exp'' of
             Some (JNumber expire) \<Rightarrow>
               (case payload ''email'' of
                  Some (JString email) \<Rightarrow>
                    if After (now e) (time_Unix (int64 expire))
                    then (Error (NewAndPrintWithTag ''CPW01'' None FRIENDLY_TOKEN_EXPIRED), w)
                    else (case GetAccount w \<lparr>filter_Email = email, filter_AccountID = []\<rparr> of
                            (Inl err, w1) \<Rightarrow>
                              (Error (set_Type
                                 (NewAndPrintWithTag ''CPW02'' (Some err) FRIENDLY_INVALID_EMAIL)
                                 TYPE_NOT_FOUND), w1)
                          | (Inr account, w1) \<Rightarrow>
                              if tok \<noteq> PasswordToken account
                              then (Error (NewAndPrintWithTag ''CPW03''
                                      (Some (errors_New
                                         (''token is different from token from database. email : ''
                                            @ Email account)))
                                      FRIENDLY_INVALID_TOKEN), w1)
                              else (case generateSalt e of
                                      Inl err \<Rightarrow> (Error err, w1)
                                    | Inr salt \<Rightarrow>
                                   (case hashPassword e password salt of
                                      Inl err \<Rightarrow> (Error err, w1)
                                    | Inr hashed \<Rightarrow>
                                   (case UpdateSaltAndPassword w1
                                           (account\<lparr>Salt := salt, Password := hashed\<rparr>) of
                                      (Some err, w2) \<Rightarrow> (Error err, w2)
                                    | (None, w2) \<Rightarrow>
                                   (case UpdatePasswordToken w2 (AccountID account) blank of
                                      (Some err, w3) \<Rightarrow> (Error err, w3)
                                    | (None, w3) \<Rightarrow> (Return (), w3))))))
                | _ \<Rightarrow> (Panic, w))
           | _ \<Rightarrow> (Panic, w)))"

text \<open>\<^verbatim>\<open>SignOut\<close> receives the two tokens parsed; it reads their claims only.\<close>

definition SignOut :: "world \<Rightarrow> MapClaims \<Rightarrow> MapClaims \<Rightarrow> unit result \<times> world" where
  "SignOut w atClaims rtClaims =
     (case atClaims ''access_uuid'' of
        Some (JString atUUID) \<Rightarrow>
          (case RedisHelper_Delete w atUUID of
             (Some err, w1) \<Rightarrow>
               (Error (NewAndPrintWithTag ''SOU00'' (Some err) FRIENDLY_MESSAGE), w1)
           | (None, w1) \<Rightarrow>
               (case rtClaims ''refresh_uuid'' of
                  Some (JString rtUUID) \<Rightarrow>
                    (case RedisHelper_Delete w1 rtUUID of
                       (Some err, w2) \<Rightarrow>
                         (Error (NewAndPrintWithTag ''SOU01'' (Some err) FRIENDLY_MESSAGE), w2)
                     | (None, w2) \<Rightarrow> (Return (), w2))
                | _ \<Rightarrow> (Panic, w1)))
      | _ \<Rightarrow> (Panic, w))"

section \<open>Example surroundings\<close>

text \<open>
  One account (verified, password \<open>pw1\<close>) with its profile, and surroundings at Unix second
  1700000000, for the concrete runs below.
\<close>

definition example_salt :: string where
  "example_salt = replicate 32 (CHR ''s'')"

definition example_env :: env where
  "example_env =
     \<lparr>now = 1700000000 * Second, JWT_SECRET = ''secret'', FEHost = ''https://fe.example'',
      EmailVerification_Subject = ''Verify your email'',
      ResetPassword_Subject = ''Reset your password'',
      entropy = Some example_salt, bcrypt_entropy = Some ''0123456789abcdef'',
      bcrypt_rejects_long = False, uuid_1 = ''uuid-1'', uuid_2 = ''uuid-2''\<rparr>"

definition example_account :: "hash Account" where
  "example_account =
     \<lparr>AccountID = ''acc-1'',
      Password = Bcrypt 4 ''0123456789abcdef'' (bcrypt_key (''pw1'' @ example_salt)),
      Email = ''a@x.com'', Salt = example_salt, EmailToken = blank, IsVerified = True,
      PasswordToken = blank\<rparr>"

definition example_profile :: Profile where
  "example_profile = \<lparr>ProfileID = ''p-1'', FullName = ''Ann'', Profile_AccountID = ''acc-1''\<rparr>"

definition example_world :: world where
  "example_world =
     \<lparr>accounts = [example_account], profiles = [example_profile], sessions = Map.empty,
      outbox = [], faults = []\<rparr>"

definition example_credentials :: "string Account" where
  "example_credentials =
     \<lparr>AccountID = [], Password = ''pw1'', Email = ''a@x.com'', Salt = [], EmailToken = blank,
      IsVerified = False, PasswordToken = blank\<rparr>"

text \<open>Later instants: within the same second, a minute later, two minutes later.\<close>

definition half_second_later :: env where
  "half_second_later = example_env\<lparr>now := 1700000000 * Second + 500000000\<rparr>"

definition minute_later :: env where
  "minute_later = example_env\<lparr>now := 1700000060 * Second\<rparr>"

definition two_minutes_later :: env where
  "two_minutes_later = example_env\<lparr>now := 1700000120 * Second\<rparr>"

text \<open>The reset tokens minted at second 1700000000 and at second 1700000060.\<close>

definition first_reset_token :: token where
  "first_reset_token =
     JWT SigningMethodHS256
       [''email'' \<mapsto> JString ''a@x.com'', ''exp'' \<mapsto> JNumber 1700086400] ''secret''"

definition second_reset_token :: token where
  "second_reset_token =
     JWT SigningMethodHS256
       [''email'' \<mapsto> JString ''a@x.com'', ''exp'' \<mapsto> JNumber 1700086460] ''secret''"

text \<open>A token signed with the configured secret that expired one second ago.\<close>

definition expired_token :: token where
  "expired_token =
     JWT SigningMethodHS256
       [''email'' \<mapsto> JString ''a@x.com'', ''exp'' \<mapsto> JNumber 1699999999] ''secret''"

text \<open>
  Runs: a first \<^verbatim>\<open>ResetPassword\<close>; a second one within the same second, or a minute
  later; a \<^verbatim>\<open>Login\<close> after the first reset, a \<^verbatim>\<open>ChangePassword\<close> after that login, and
  a \<^verbatim>\<open>SignOut\<close> after that login.
\<close>

definition first_reset :: world where
  "first_reset = snd (ResetPassword example_env example_world ''a@x.com'')"

definition second_reset_same_second :: world where
  "second_reset_same_second = snd (ResetPassword half_second_later first_reset ''a@x.com'')"

definition second_reset_minute_later :: world where
  "second_reset_minute_later = snd (ResetPassword minute_later first_reset ''a@x.com'')"

definition example_access_claims :: MapClaims where
  "example_access_claims =
     [''authorized'' \<mapsto> JBool True, ''account_id'' \<mapsto> JString ''acc-1'',
      ''access_uuid'' \<mapsto> JString ''uuid-1'', ''email'' \<mapsto> JString ''a@x.com'',
      ''exp'' \<mapsto> JNumber 1700000900, ''full_name'' \<mapsto> JString ''Ann'']"

definition example_refresh_claims :: MapClaims where
  "example_refresh_claims =
     [''account_id'' \<mapsto> JString ''acc-1'', ''refresh_uuid'' \<mapsto> JString ''uuid-2'',
      ''exp'' \<mapsto> JNumber 1700003600]"

definition logged_in :: world where
  "logged_in = snd (Login example_env first_reset example_credentials)"

definition password_changed :: world where
  "password_changed = snd (ChangePassword minute_later logged_in first_reset_token ''pw2'')"

definition signed_out :: world where
  "signed_out = snd (SignOut logged_in example_access_claims example_refresh_claims)"

text \<open>An account that has not verified its email, and a collaborator about to fail.\<close>

definition unverified_world :: world where
  "unverified_world = example_world\<lparr>accounts := [example_account\<lparr>IsVerified := False\<rparr>]\<rparr>"

definition new_credentials :: "string Account" where
  "new_credentials = example_credentials\<lparr>Email := ''b@x.com'', Password := ''pw3''\<rparr>"

definition new_profile :: Profile where
  "new_profile = \<lparr>ProfileID = ''p-2'', FullName = ''Bob'', Profile_AccountID = []\<rparr>"

definition mail_down :: world where
  "mail_down = example_world\<lparr>faults := [None, None, Some AtExec]\<rparr>"

definition redis_down :: world where
  "redis_down = logged_in\<lparr>faults := [Some AtExec]\<rparr>"

section \<open>Properties\<close>

subsection \<open>Secret Hasher\<close>

lemma concat_replicate_Suc: "concat (replicate (Suc n) y) = y @ concat (replicate n y)"
  by simp

lemma bcrypt_key_unfold:
  "bcrypt_key x = take 72 ((x @ [NUL]) @ concat (replicate 71 (x @ [NUL])))"
proof -
  have "(72::nat) = Suc 71" by simp
  then show ?thesis unfolding bcrypt_key_def by (metis concat_replicate_Suc)
qed

lemma prefix_take_append: "length y \<le> n \<Longrightarrow> prefix y (take n (y @ r))"
  by (simp add: prefix_def)

lemma prefix_bcrypt_key_NUL: "length x < 72 \<Longrightarrow> prefix (x @ [NUL]) (bcrypt_key x)"
  unfolding bcrypt_key_unfold by (rule prefix_take_append) simp

lemma prefix_bcrypt_key: "length x \<le> 72 \<Longrightarrow> prefix x (bcrypt_key x)"
  unfolding bcrypt_key_unfold append_assoc by (rule prefix_take_append) simp

lemma bcrypt_key_long: "72 \<le> length x \<Longrightarrow> bcrypt_key x = take 72 x"
  unfolding bcrypt_key_unfold by simp

lemma NUL_in_period: "prefix (s @ [NUL]) (q @ s) \<Longrightarrow> NUL \<in> set q"
proof (induction s rule: length_induct)
  case (1 s)
  from "1.prems" consider "prefix (s @ [NUL]) q"
    | us where "s @ [NUL] = q @ us" "prefix us s"
    by (auto simp: prefix_append)
  then show ?case
  proof cases
    case 1
    then show ?thesis by (auto dest: set_mono_prefix)
  next
    case 2
    show ?thesis
    proof (cases us rule: rev_cases)
      case Nil
      with 2 show ?thesis by auto
    next
      case (snoc us' c)
      with 2 have s: "s = q @ us'" and c: "c = NUL" by auto
      show ?thesis
      proof (cases "q = []")
        case True
        with 2 s snoc show ?thesis by (auto dest: prefix_length_le)
      next
        case False
        from 2 snoc c s have "prefix (us' @ [NUL]) (q @ us')" by simp
        moreover from False s have "length us' < length s" by simp
        ultimately show ?thesis using "1.IH" by blast
      qed
    qed
  qed
qed


lemma prefix_same_length: "prefix xs ys \<Longrightarrow> length xs = length ys \<Longrightarrow> xs = ys"
  by (auto simp: prefix_def)

lemma bcrypt_key_inj_le:
  assumes "NUL \<notin> set p'" and "length (p' @ s) \<le> 72"
    and "length p \<le> length p'"
    and "bcrypt_key (p @ s) = bcrypt_key (p' @ s)"
  shows "p = p'"
proof (cases "length p = length p'")
  case True
  from assms True have "prefix (p @ s) (bcrypt_key (p' @ s))" "prefix (p' @ s) (bcrypt_key (p' @ s))"
    using prefix_bcrypt_key [of "p @ s"] prefix_bcrypt_key [of "p' @ s"] by auto
  then have "prefix (p @ s) (p' @ s) \<or> prefix (p' @ s) (p @ s)"
    by (rule prefix_same_cases)
  with True have "p @ s = p' @ s"
    by (auto dest: prefix_same_length)
  then show ?thesis by simp
next
  case False
  with assms have less: "length p < length p'" by simp
  with assms have "prefix ((p @ s) @ [NUL]) (bcrypt_key (p' @ s))"
    using prefix_bcrypt_key_NUL [of "p @ s"] by auto
  moreover from assms have "prefix (p' @ s) (bcrypt_key (p' @ s))"
    by (intro prefix_bcrypt_key)
  ultimately have "prefix ((p @ s) @ [NUL]) (p' @ s) \<or> prefix (p' @ s) ((p @ s) @ [NUL])"
    by (rule prefix_same_cases)
  then have pre: "prefix (p @ s @ [NUL]) (p' @ s)"
  proof
    assume "prefix ((p @ s) @ [NUL]) (p' @ s)"
    then show ?thesis by simp
  next
    assume other: "prefix (p' @ s) ((p @ s) @ [NUL])"
    then have "length (p' @ s) \<le> length ((p @ s) @ [NUL])"
      by (rule prefix_length_le)
    with less have "length (p' @ s) = length ((p @ s) @ [NUL])" by simp
    with other have "p' @ s = (p @ s) @ [NUL]" by (rule prefix_same_length)
    then show ?thesis by simp
  qed
  then obtain zs where "p' @ s = p @ (s @ [NUL] @ zs)"
    by (auto simp: prefix_def)
  then have "take (length p) (p' @ s) = take (length p) (p @ (s @ [NUL] @ zs))"
    by (rule arg_cong)
  with less have "take (length p) p' = p" by simp
  then obtain q where q: "p' = p @ q"
    by (metis append_take_drop_id)
  with pre have "prefix (s @ [NUL]) (q @ s)" by simp
  then have "NUL \<in> set q" by (rule NUL_in_period)
  with q assms(1) show ?thesis by simp
qed

lemma bcrypt_key_inj:
  assumes "NUL \<notin> set p" and "NUL \<notin> set p'"
    and "length p + length s \<le> 72" and "length p' + length s \<le> 72"
    and "bcrypt_key (p @ s) = bcrypt_key (p' @ s)"
  shows "p = p'"
proof (cases "length p \<le> length p'")
  case True
  with assms show ?thesis by (intro bcrypt_key_inj_le [of p' s p]) auto
next
  case False
  with assms have "p' = p" by (intro bcrypt_key_inj_le [of p s p']) auto
  then show ?thesis by simp
qed

lemma hashPassword_Inr:
  "hashPassword e p s = Inr h \<Longrightarrow> \<exists>bs. h = Bcrypt MinCost bs (bcrypt_key (p @ s))"
  by (auto simp: hashPassword_def GenerateFromPassword_def Let_def
      split: if_splits option.splits)

lemma comparePassword_Bcrypt:
  "comparePassword p s (Bcrypt c bs k) = (None, True) \<longleftrightarrow> bcrypt_key (p @ s) = k"
  by (simp add: comparePassword_def Let_def)

lemma snd_comparePassword_Bcrypt:
  "snd (comparePassword p s (Bcrypt c bs k)) \<longleftrightarrow> bcrypt_key (p @ s) = k"
  by (simp add: comparePassword_def Let_def)

text \<open>
  C4, as the code has it. Verifying a password against the hash derived from it and the
  same salt succeeds. A different password fails to verify when neither password contains
  a NUL byte and both salted passwords fit into the 72 bytes that bcrypt reads, that is
  when \<open>length p + length s \<le> 72\<close> and \<open>length p' + length s \<le> 72\<close> (passwords of at
  most 40 bytes with the 32-byte salt that \<open>generateSalt\<close> draws).
\<close>

theorem hasher_verifies_within_72_bytes:
  assumes "hashPassword e p s = Inr h"
  shows "comparePassword p s h = (None, True) \<and>
         (\<forall>p'. NUL \<notin> set p \<and> NUL \<notin> set p' \<and>
               length p + length s \<le> 72 \<and> length p' + length s \<le> 72 \<and> p' \<noteq> p \<longrightarrow>
               snd (comparePassword p' s h) = False)"
proof -
  from assms obtain bs where h: "h = Bcrypt MinCost bs (bcrypt_key (p @ s))"
    using hashPassword_Inr by blast
  have own: "comparePassword p s h = (None, True)"
    by (simp add: h comparePassword_Bcrypt)
  have other: "snd (comparePassword p' s h) = False"
    if "NUL \<notin> set p" "NUL \<notin> set p'" "length p + length s \<le> 72"
      "length p' + length s \<le> 72" "p' \<noteq> p" for p'
  proof -
    from that have "bcrypt_key (p' @ s) \<noteq> bcrypt_key (p @ s)"
      using bcrypt_key_inj [of p' p s] by blast
    then show ?thesis by (simp add: h snd_comparePassword_Bcrypt)
  qed
  from own other show ?thesis by blast
qed

text \<open>C4, as the code has it, at the example account's password and a wrong password.\<close>

theorem hasher_verifies_within_72_bytes_witness:
  "hashPassword example_env ''pw1'' example_salt =
     Inr (Bcrypt 4 ''0123456789abcdef'' (bcrypt_key (''pw1'' @ example_salt))) \<and>
   NUL \<notin> set ''pw1'' \<and> NUL \<notin> set ''wrong'' \<and>
   length ''pw1'' + length example_salt \<le> 72 \<and>
   length ''wrong'' + length example_salt \<le> 72 \<and>
   comparePassword ''pw1'' example_salt
     (Bcrypt 4 ''0123456789abcdef'' (bcrypt_key (''pw1'' @ example_salt))) = (None, True) \<and>
   snd (comparePassword ''wrong'' example_salt
     (Bcrypt 4 ''0123456789abcdef'' (bcrypt_key (''pw1'' @ example_salt)))) = False"
proof -
  have h: "hashPassword example_env ''pw1'' example_salt =
             Inr (Bcrypt 4 ''0123456789abcdef'' (bcrypt_key (''pw1'' @ example_salt)))"
    by (simp add: hashPassword_def GenerateFromPassword_def example_env_def example_salt_def
        MinCost_def)
  have free: "NUL \<notin> set ''pw1''" "NUL \<notin> set ''wrong''"
    by (simp_all add: NUL_def)
  have fit: "length ''pw1'' + length example_salt \<le> 72"
    "length ''wrong'' + length example_salt \<le> 72"
    by (simp_all add: example_salt_def)
  have differ: "''wrong'' \<noteq> ''pw1''" by simp
  from hasher_verifies_within_72_bytes [OF h, THEN conjunct2, rule_format, of "''wrong''"]
       hasher_verifies_within_72_bytes [OF h, THEN conjunct1] h free fit differ
  show ?thesis by blast
qed

lemma concat_replicate_twice:
  "concat (replicate n (w @ w)) = concat (replicate n w) @ concat (replicate n w)"
proof -
  have "concat (replicate n (w @ w)) = concat (replicate (n + n) w)"
    by (induction n) simp_all
  then show ?thesis by (simp add: replicate_add)
qed

lemma bcrypt_key_twice: "bcrypt_key (y @ NUL # y) = bcrypt_key y"
proof -
  have "72 \<le> length (concat (replicate 72 (y @ [NUL])))"
    by (simp add: length_concat sum_list_replicate)
  then show ?thesis
    using concat_replicate_twice [of 72 "y @ [NUL]"]
    by (simp add: bcrypt_key_def)
qed

text \<open>
  C4 as stated fails. With a release of bcrypt that rejects long inputs: a 40-byte password
  and a 32-byte salt give a hash that a different, 41-byte password verifies against. With
  a release that does not: a 72-byte password gives a hash that the same password with a
  further byte verifies against, whatever the salt. With either: the password \<open>abc\<close> gives
  a hash that the 39-byte password \<open>abc\<close>, salt, NUL, \<open>abc\<close> verifies against.
\<close>

theorem hasher_collisions:
  "hashPassword (example_env\<lparr>bcrypt_rejects_long := True\<rparr>)
       (replicate 40 (CHR ''a'')) (replicate 32 (CHR ''a''))
     = Inr (Bcrypt 4 ''0123456789abcdef''
              (bcrypt_key (replicate 40 (CHR ''a'') @ replicate 32 (CHR ''a'')))) \<and>
   comparePassword (replicate 41 (CHR ''a'')) (replicate 32 (CHR ''a''))
       (Bcrypt 4 ''0123456789abcdef''
          (bcrypt_key (replicate 40 (CHR ''a'') @ replicate 32 (CHR ''a'')))) = (None, True) \<and>
   replicate 41 (CHR ''a'') \<noteq> replicate 40 (CHR ''a'') \<and>
   hashPassword example_env (replicate 72 (CHR ''a'')) example_salt
     = Inr (Bcrypt 4 ''0123456789abcdef''
              (bcrypt_key (replicate 72 (CHR ''a'') @ example_salt))) \<and>
   comparePassword (replicate 72 (CHR ''a'') @ ''b'') example_salt
       (Bcrypt 4 ''0123456789abcdef''
          (bcrypt_key (replicate 72 (CHR ''a'') @ example_salt))) = (None, True) \<and>
   replicate 72 (CHR ''a'') @ ''b'' \<noteq> replicate 72 (CHR ''a'') \<and>
   hashPassword (example_env\<lparr>bcrypt_rejects_long := True\<rparr>) ''abc'' example_salt
     = Inr (Bcrypt 4 ''0123456789abcdef'' (bcrypt_key (''abc'' @ example_salt))) \<and>
   comparePassword (''abc'' @ example_salt @ [NUL] @ ''abc'') example_salt
       (Bcrypt 4 ''0123456789abcdef'' (bcrypt_key (''abc'' @ example_salt))) = (None, True) \<and>
   ''abc'' @ example_salt @ [NUL] @ ''abc'' \<noteq> ''abc''"
proof -
  have strict: "bcrypt_key (replicate 41 (CHR ''a'') @ replicate 32 (CHR ''a'')) =
                bcrypt_key (replicate 40 (CHR ''a'') @ replicate 32 (CHR ''a''))"
    by (simp add: bcrypt_key_long replicate_add [symmetric])
  have lenient: "bcrypt_key ((replicate 72 (CHR ''a'') @ ''b'') @ example_salt) =
                 bcrypt_key (replicate 72 (CHR ''a'') @ example_salt)"
    by (simp add: bcrypt_key_long)
  have cyclic: "bcrypt_key ((''abc'' @ example_salt @ [NUL] @ ''abc'') @ example_salt) =
                bcrypt_key (''abc'' @ example_salt)"
    using bcrypt_key_twice [of "''abc'' @ example_salt"] by simp
  have differ: "replicate 41 (CHR ''a'') \<noteq> replicate 40 (CHR ''a'')"
    "replicate 72 (CHR ''a'') @ ''b'' \<noteq> replicate 72 (CHR ''a'')"
    "''abc'' @ example_salt @ [NUL] @ ''abc'' \<noteq> ''abc''"
    by (auto dest: arg_cong [where f = length])
  have hashes:
    "hashPassword (example_env\<lparr>bcrypt_rejects_long := True\<rparr>)
       (replicate 40 (CHR ''a'')) (replicate 32 (CHR ''a''))
     = Inr (Bcrypt 4 ''0123456789abcdef''
              (bcrypt_key (replicate 40 (CHR ''a'') @ replicate 32 (CHR ''a''))))"
    "hashPassword example_env (replicate 72 (CHR ''a'')) example_salt
     = Inr (Bcrypt 4 ''0123456789abcdef''
              (bcrypt_key (replicate 72 (CHR ''a'') @ example_salt)))"
    "hashPassword (example_env\<lparr>bcrypt_rejects_long := True\<rparr>) ''abc'' example_salt
     = Inr (Bcrypt 4 ''0123456789abcdef'' (bcrypt_key (''abc'' @ example_salt)))"
    by (simp_all add: hashPassword_def GenerateFromPassword_def MinCost_def example_env_def
        example_salt_def)
  from strict lenient cyclic differ hashes show ?thesis
    by (simp add: comparePassword_Bcrypt)
qed

subsection \<open>Collaborators\<close>

lemma io_keeps:
  "io w = (f, w') \<Longrightarrow>
     accounts w' = accounts w \<and> profiles w' = profiles w \<and> sessions w' = sessions w \<and>
     outbox w' = outbox w"
  by (auto simp: io_def split: list.splits)

lemma GetAccount_keeps:
  "GetAccount w f = (r, w') \<Longrightarrow>
     accounts w' = accounts w \<and> profiles w' = profiles w \<and> sessions w' = sessions w \<and>
     outbox w' = outbox w"
  by (auto simp: GetAccount_def split: prod.splits option.splits list.splits dest: io_keeps)

lemma sessions_snd_io [simp]: "sessions (snd (io w)) = sessions w"
  by (simp add: io_def split: list.splits)

lemma sessions_snd_GetAccount [simp]: "sessions (snd (GetAccount w f)) = sessions w"
  by (simp add: GetAccount_def case_prod_beta split: option.splits list.splits)

lemma sessions_snd_update_where [simp]:
  "sessions (snd (update_where tag aid change w)) = sessions w"
  by (simp add: update_where_def case_prod_beta split: option.splits)

lemma RedisHelper_Delete_NoneD:
  "RedisHelper_Delete w k = (None, w') \<Longrightarrow> sessions w' = (sessions w)(k := None)"
  by (auto simp: RedisHelper_Delete_def split: prod.splits option.splits dest: io_keeps)

lemma RedisHelper_Get_absent:
  "sessions w k = None \<Longrightarrow> fst (fst (RedisHelper_Get w k)) = blank"
  by (auto simp: RedisHelper_Get_def split: prod.splits option.splits dest: io_keeps)

lemma filter_matches_map:
  assumes "\<And>r. Email (g r) = Email r" and "\<And>r. AccountID (g r) = AccountID r"
  shows "filter (matches f) (map g rows) = map g (filter (matches f) rows)"
  by (induction rows) (auto simp: matches_def assms)

lemma GetAccount_InrD:
  "GetAccount w f = (Inr a, w') \<Longrightarrow>
     (\<exists>rest. filter (matches f) (accounts w) = a # rest) \<and>
     accounts w' = accounts w \<and> outbox w' = outbox w"
  by (auto simp: GetAccount_def split: prod.splits option.splits list.splits dest: io_keeps)

lemma GetAccount_no_faults:
  "faults w = [] \<Longrightarrow> filter (matches f) (accounts w) = a # rest \<Longrightarrow>
   GetAccount w f = (Inr a, w)"
  by (simp add: GetAccount_def io_def)

lemma update_where_NoneD:
  "update_where tag aid change w = (None, w') \<Longrightarrow>
     accounts w' = map (\<lambda>r. if AccountID r = aid then change r else r) (accounts w) \<and>
     outbox w' = outbox w"
  by (auto simp: update_where_def split: prod.splits option.splits dest: io_keeps)

lemma update_where_no_faults:
  "faults w = [] \<Longrightarrow>
   update_where tag aid change w =
     (None, w\<lparr>accounts := map (\<lambda>r. if AccountID r = aid then change r else r) (accounts w)\<rparr>)"
  by (simp add: update_where_def io_def)

lemma SendMail_NoneD:
  "SendMail w m = (None, w') \<Longrightarrow> outbox w' = outbox w @ [m] \<and> accounts w' = accounts w"
  by (auto simp: SendMail_def split: prod.splits option.splits dest: io_keeps)

subsection \<open>Time and tokens\<close>

lemma Unix_add_day: "Unix (t + 24 * Hour) = Unix t + 86400"
  by (simp add: Unix_def Hour_def Minute_def Second_def)

lemma int64_of_int [simp]: "int64 (of_int n) = n"
  by (simp add: int64_def)

lemma not_After_Unix: "\<not> After t (time_Unix x) \<Longrightarrow> Unix t \<le> x"
proof -
  assume "\<not> After t (time_Unix x)"
  then have "t \<le> x * Second" by (simp add: After_def time_Unix_def)
  then have "t div Second \<le> (x * Second) div Second"
    by (rule zdiv_mono1) (simp add: Second_def)
  then show ?thesis by (simp add: Unix_def Second_def)
qed

lemma ParseToken_reset_token:
  assumes "\<not> After (now e) (time_Unix x)" and "JWT_SECRET e = key"
  shows "ParseToken e (JWT SigningMethodHS256
                         [''email'' \<mapsto> JString email, ''exp'' \<mapsto> JNumber (of_int x)] key)
           = ([''email'' \<mapsto> JString email, ''exp'' \<mapsto> JNumber (of_int x)], None)"
  using not_After_Unix [OF assms(1)] assms(2)
  by (simp add: ParseToken_def Valid_def VerifyExpiresAt_def VerifyIssuedAt_def
      VerifyNotBefore_def verifyExp_def Let_def)

lemma reset_claims_differ:
  "x \<noteq> y \<Longrightarrow>
   [''email'' \<mapsto> JString email, ''exp'' \<mapsto> JNumber x] \<noteq>
   [''email'' \<mapsto> JString email, ''exp'' \<mapsto> JNumber y]"
  by (auto dest: map_upd_eqD1)

subsection \<open>Example runs\<close>

lemmas world_defs = io_def GetAccount_def matches_def update_where_def UpdateIsVerified_def
  UpdateSaltAndPassword_def UpdatePasswordToken_def InsertAccount_def InsertProfile_def
  GetProfile_def RedisHelper_Set_def RedisHelper_Get_def RedisHelper_Delete_def SendMail_def
  duplicate_entry_def

lemmas codec_defs = CreateToken_def CreateTokenPair_def SignedString_def ParseToken_def
  Valid_def VerifyExpiresAt_def VerifyIssuedAt_def VerifyNotBefore_def verifyExp_def
  verifyIat_def verifyNbf_def int64_def Unix_def time_Unix_def After_def Second_def Minute_def
  Hour_def

lemmas hasher_defs = generateSalt_def hashPassword_def comparePassword_def
  GenerateFromPassword_def SALT_BYTES_def MinCost_def

lemmas example_defs = example_env_def example_world_def example_account_def
  example_profile_def example_salt_def example_credentials_def half_second_later_def
  minute_later_def two_minutes_later_def

lemma first_reset_eq:
  "ResetPassword example_env example_world ''a@x.com'' =
     (Return (),
      example_world
        \<lparr>accounts := [example_account\<lparr>PasswordToken := first_reset_token\<rparr>],
         outbox := [\<lparr>mail_to = [''a@x.com''], mail_subject = ''Reset your password'',
                     mail_template = RESET_PASSWORD_TEMPLATE,
                     mail_url = Url ''https://fe.example'' ''/change_password?token=''
                                  first_reset_token\<rparr>]\<rparr>)"
  by (simp add: ResetPassword_def world_defs codec_defs example_defs first_reset_token_def
      generateResetPasswordUrl_def blank_def Let_def)

lemma first_reset_world:
  "first_reset =
     example_world
       \<lparr>accounts := [example_account\<lparr>PasswordToken := first_reset_token\<rparr>],
        outbox := [\<lparr>mail_to = [''a@x.com''], mail_subject = ''Reset your password'',
                    mail_template = RESET_PASSWORD_TEMPLATE,
                    mail_url = Url ''https://fe.example'' ''/change_password?token=''
                                 first_reset_token\<rparr>]\<rparr>"
  by (simp add: first_reset_def first_reset_eq)

lemma second_reset_same_second_eq:
  "ResetPassword half_second_later first_reset ''a@x.com'' =
     (Return (),
      example_world
        \<lparr>accounts := [example_account\<lparr>PasswordToken := first_reset_token\<rparr>],
         outbox := [\<lparr>mail_to = [''a@x.com''], mail_subject = ''Reset your password'',
                     mail_template = RESET_PASSWORD_TEMPLATE,
                     mail_url = Url ''https://fe.example'' ''/change_password?token=''
                                  first_reset_token\<rparr>,
                    \<lparr>mail_to = [''a@x.com''], mail_subject = ''Reset your password'',
                     mail_template = RESET_PASSWORD_TEMPLATE,
                     mail_url = Url ''https://fe.example'' ''/change_password?token=''
                                  first_reset_token\<rparr>]\<rparr>)"
  by (simp add: first_reset_world ResetPassword_def world_defs codec_defs example_defs
      first_reset_token_def generateResetPasswordUrl_def blank_def Let_def)

lemma second_reset_minute_later_eq:
  "ResetPassword minute_later first_reset ''a@x.com'' =
     (Return (),
      example_world
        \<lparr>accounts := [example_account\<lparr>PasswordToken := second_reset_token\<rparr>],
         outbox := [\<lparr>mail_to = [''a@x.com''], mail_subject = ''Reset your password'',
                     mail_template = RESET_PASSWORD_TEMPLATE,
                     mail_url = Url ''https://fe.example'' ''/change_password?token=''
                                  first_reset_token\<rparr>,
                    \<lparr>mail_to = [''a@x.com''], mail_subject = ''Reset your password'',
                     mail_template = RESET_PASSWORD_TEMPLATE,
                     mail_url = Url ''https://fe.example'' ''/change_password?token=''
                                  second_reset_token\<rparr>]\<rparr>)"
  by (simp add: first_reset_world ResetPassword_def world_defs codec_defs example_defs
      first_reset_token_def second_reset_token_def generateResetPasswordUrl_def blank_def Let_def)

lemma second_reset_same_second_world:
  "second_reset_same_second =
      example_world
        \<lparr>accounts := [example_account\<lparr>PasswordToken := first_reset_token\<rparr>],
         outbox := [\<lparr>mail_to = [''a@x.com''], mail_subject = ''Reset your password'',
                     mail_template = RESET_PASSWORD_TEMPLATE,
                     mail_url = Url ''https://fe.example'' ''/change_password?token=''
                                  first_reset_token\<rparr>,
                    \<lparr>mail_to = [''a@x.com''], mail_subject = ''Reset your password'',
                     mail_template = RESET_PASSWORD_TEMPLATE,
                     mail_url = Url ''https://fe.example'' ''/change_password?token=''
                                  first_reset_token\<rparr>]\<rparr>"
  by (simp add: second_reset_same_second_def second_reset_same_second_eq)

lemma second_reset_minute_later_world:
  "second_reset_minute_later =
      example_world
        \<lparr>accounts := [example_account\<lparr>PasswordToken := second_reset_token\<rparr>],
         outbox := [\<lparr>mail_to = [''a@x.com''], mail_subject = ''Reset your password'',
                     mail_template = RESET_PASSWORD_TEMPLATE,
                     mail_url = Url ''https://fe.example'' ''/change_password?token=''
                                  first_reset_token\<rparr>,
                    \<lparr>mail_to = [''a@x.com''], mail_subject = ''Reset your password'',
                     mail_template = RESET_PASSWORD_TEMPLATE,
                     mail_url = Url ''https://fe.example'' ''/change_password?token=''
                                  second_reset_token\<rparr>]\<rparr>"
  by (simp add: second_reset_minute_later_def second_reset_minute_later_eq)

lemma login_eq:
  "Login example_env first_reset example_credentials =
     (Return \<lparr>AccessToken = JWT SigningMethodHS256 example_access_claims ''secret'',
              RefreshTokenStr = JWT SigningMethodHS256 example_refresh_claims ''secret'',
              RefreshTokenExpTime = 1700003600 * Second\<rparr>,
      first_reset
        \<lparr>sessions :=
           [''uuid-1'' \<mapsto> (JWT SigningMethodHS256 example_access_claims ''secret'', 1700000900),
            ''uuid-2'' \<mapsto> (JWT SigningMethodHS256 example_refresh_claims ''secret'', 1700003600)]\<rparr>)"
  by (simp add: first_reset_world Login_def createTokenPair_def world_defs codec_defs
      hasher_defs example_defs example_access_claims_def example_refresh_claims_def Let_def)

lemma logged_in_world:
  "logged_in =
     first_reset
        \<lparr>sessions :=
           [''uuid-1'' \<mapsto> (JWT SigningMethodHS256 example_access_claims ''secret'', 1700000900),
            ''uuid-2'' \<mapsto> (JWT SigningMethodHS256 example_refresh_claims ''secret'', 1700003600)]\<rparr>"
  by (simp add: logged_in_def login_eq)

lemma parse_first_reset_token:
  "ParseToken minute_later first_reset_token =
     ([''email'' \<mapsto> JString ''a@x.com'', ''exp'' \<mapsto> JNumber 1700086400], None) \<and>
   ParseToken two_minutes_later first_reset_token =
     ([''email'' \<mapsto> JString ''a@x.com'', ''exp'' \<mapsto> JNumber 1700086400], None)"
  by (simp add: codec_defs example_defs first_reset_token_def Let_def)

lemma parse_second_reset_token:
  "ParseToken two_minutes_later second_reset_token =
     ([''email'' \<mapsto> JString ''a@x.com'', ''exp'' \<mapsto> JNumber 1700086460], None)"
  by (simp add: codec_defs example_defs second_reset_token_def Let_def)

lemma change_after_login_eq:
  "fst (ChangePassword minute_later logged_in first_reset_token ''pw2'') = Return () \<and>
   sessions (snd (ChangePassword minute_later logged_in first_reset_token ''pw2'')) =
     sessions logged_in"
  by (simp add: ChangePassword_def parse_first_reset_token logged_in_world first_reset_world
      world_defs hasher_defs example_defs codec_defs blank_def first_reset_token_def)

lemma change_after_same_second_eq:
  "fst (ChangePassword minute_later second_reset_same_second first_reset_token ''pw2'') = Return ()"
  by (simp add: ChangePassword_def parse_first_reset_token second_reset_same_second_world
      world_defs hasher_defs example_defs codec_defs blank_def first_reset_token_def)

lemma sign_out_eq:
  "SignOut logged_in example_access_claims example_refresh_claims =
     (Return (), first_reset\<lparr>sessions := Map.empty\<rparr>)"
  by (simp add: SignOut_def logged_in_world first_reset_world world_defs example_defs
      example_access_claims_def example_refresh_claims_def)


subsection \<open>ChangePassword and the stored reset token\<close>



subsection \<open>Expiry and the codec\<close>

text \<open>
  C2 as stated fails: a token signed with the configured secret whose expiry claim lies one
  second in the past is not accepted by the codec's parse; the claims come back with a
  validation error that flags the expiry.
\<close>

theorem parseJWT_expired_token:
  "JWT_SECRET example_env = ''secret'' \<and>
   1699999999 < Unix (now example_env) \<and>
   parseJWT example_env expired_token =
     ([''email'' \<mapsto> JString ''a@x.com'', ''exp'' \<mapsto> JNumber 1699999999],
      Some (ValidationError [ValidationErrorExpired]))"
  by (simp add: parseJWT_def expired_token_def codec_defs example_env_def Let_def)

text \<open>
  The expiry flag of the codec: raised exactly when \<open>exp\<close> is a number that converts to a
  non-zero second before the current one.
\<close>

lemma Expired_flag_iff:
  "ValidationErrorExpired \<in> set (Valid t claims) \<longleftrightarrow>
     (\<exists>x. claims ''exp'' = Some (JNumber x) \<and> int64 x \<noteq> 0 \<and> int64 x < Unix t)"
  by (auto simp: Valid_def VerifyExpiresAt_def verifyExp_def Let_def
      split: option.splits json.splits if_splits)

text \<open>
  C2, as the code has it. For every token signed with the configured secret (its expiry
  claim, if a number, inside the 64-bit range), the codec's parse returns the claims, and
  it returns them with a validation error that flags the expiry exactly when the expiry
  claim is a number whose conversion \<^verbatim>\<open>int64(exp)\<close> is non-zero and earlier than the current
  Unix second. So the codec enforces expiry itself, and it never flags a token whose
  expiry claim is absent, is not a number, or converts to zero.
\<close>

theorem parseJWT_rejects_expired:
  assumes "\<And>x. claims ''exp'' = Some (JNumber x) \<Longrightarrow> representable x"
  shows "fst (parseJWT e (JWT alg claims (JWT_SECRET e))) = claims \<and>
         ((\<exists>flags. snd (parseJWT e (JWT alg claims (JWT_SECRET e))) =
                     Some (ValidationError flags) \<and>
                   ValidationErrorExpired \<in> set flags) \<longleftrightarrow>
          (\<exists>x. claims ''exp'' = Some (JNumber x) \<and> int64 x \<noteq> 0 \<and>
               int64 x < Unix (now e)))"
proof -
  have parsed: "parseJWT e (JWT alg claims (JWT_SECRET e)) =
      (claims, if Valid (now e) claims = [] then None
               else Some (ValidationError (Valid (now e) claims)))"
    by (simp add: parseJWT_def Let_def)
  have "(\<exists>flags. snd (parseJWT e (JWT alg claims (JWT_SECRET e))) =
                   Some (ValidationError flags) \<and>
                 ValidationErrorExpired \<in> set flags) \<longleftrightarrow>
        ValidationErrorExpired \<in> set (Valid (now e) claims)"
    unfolding parsed by auto
  then show ?thesis
    unfolding Expired_flag_iff using parsed by simp
qed

text \<open>C2, as the code has it, at the token that expired one second ago.\<close>

theorem parseJWT_rejects_expired_witness:
  "representable 1699999999 \<and>
   int64 1699999999 \<noteq> 0 \<and>
   int64 1699999999 < Unix (now example_env) \<and>
   fst (parseJWT example_env expired_token) =
     [''email'' \<mapsto> JString ''a@x.com'', ''exp'' \<mapsto> JNumber 1699999999] \<and>
   (\<exists>flags. snd (parseJWT example_env expired_token) = Some (ValidationError flags) \<and>
            ValidationErrorExpired \<in> set flags)"
proof -
  let ?claims = "[''email'' \<mapsto> JString ''a@x.com'', ''exp'' \<mapsto> JNumber 1699999999]"
  have range: "representable 1699999999"
    by (simp add: representable_def int64_def)
  then have h: "\<And>x. ?claims ''exp'' = Some (JNumber x) \<Longrightarrow> representable x"
    by simp
  have past: "int64 1699999999 \<noteq> 0" "int64 1699999999 < Unix (now example_env)"
    by (simp_all add: int64_def Unix_def Second_def example_env_def)
  then have "\<exists>x. ?claims ''exp'' = Some (JNumber x) \<and> int64 x \<noteq> 0 \<and>
                 int64 x < Unix (now example_env)"
    by simp
  with parseJWT_rejects_expired
         [where claims = ?claims and e = example_env and alg = SigningMethodHS256, OF h]
  have "fst (parseJWT example_env (JWT SigningMethodHS256 ?claims (JWT_SECRET example_env))) =
          ?claims \<and>
        (\<exists>flags. snd (parseJWT example_env
                         (JWT SigningMethodHS256 ?claims (JWT_SECRET example_env))) =
                    Some (ValidationError flags) \<and>
                  ValidationErrorExpired \<in> set flags)"
    by blast
  moreover have "JWT SigningMethodHS256 ?claims (JWT_SECRET example_env) = expired_token"
    by (simp add: expired_token_def example_env_def)
  ultimately show ?thesis using range past by simp
qed

text \<open>
  What the callers do with a token that the codec rejected: \<open>VerifyEmail\<close> and
  \<open>ChangePassword\<close> report an invalid token, \<open>RefreshToken\<close> returns the codec's error.
\<close>

lemma callers_of_rejected_parse:
  assumes "ParseToken e t = (claims, Some err)"
  shows "fst (VerifyEmail e w t) =
           Error (NewAndPrintWithTag ''VEA00'' (Some err) FRIENDLY_INVALID_TOKEN)"
    and "fst (ChangePassword e w t password) =
           Error (NewAndPrintWithTag ''CPW00'' (Some err) FRIENDLY_INVALID_TOKEN)"
    and "fst (RefreshToken e w t) = Error err"
  using assms by (simp_all add: VerifyEmail_def ChangePassword_def RefreshToken_def)

lemma int64_half: "int64 (1 / 2) = 0"
  by (simp add: int64_def floor_eq_iff)

text \<open>
  A signed token whose expiry claim is the fraction 1/2: the codec accepts it, as the claim
  converts to 0, and the comparison of \<open>VerifyEmail\<close> and \<open>ChangePassword\<close> with the
  clock rejects it.
\<close>

lemma fractional_expiry_reaches_caller:
  "parseJWT example_env
     (JWT SigningMethodHS256 [''email'' \<mapsto> JString ''a@x.com'', ''exp'' \<mapsto> JNumber (1 / 2)]
        ''secret'') =
     ([''email'' \<mapsto> JString ''a@x.com'', ''exp'' \<mapsto> JNumber (1 / 2)], None) \<and>
   fst (VerifyEmail example_env example_world
     (JWT SigningMethodHS256 [''email'' \<mapsto> JString ''a@x.com'', ''exp'' \<mapsto> JNumber (1 / 2)]
        ''secret'')) =
     Error (NewAndPrintWithTag ''VEA02'' None FRIENDLY_TOKEN_EXPIRED) \<and>
   fst (ChangePassword example_env example_world
     (JWT SigningMethodHS256 [''email'' \<mapsto> JString ''a@x.com'', ''exp'' \<mapsto> JNumber (1 / 2)]
        ''secret'') ''pw2'') =
     Error (NewAndPrintWithTag ''CPW01'' None FRIENDLY_TOKEN_EXPIRED)"
  by (simp add: parseJWT_def VerifyEmail_def ChangePassword_def ParseToken_def Valid_def
      VerifyExpiresAt_def VerifyIssuedAt_def VerifyNotBefore_def verifyExp_def int64_half
      After_def time_Unix_def Second_def example_env_def Let_def)

subsection \<open>Password change and the Session Store\<close>

text \<open>
  C3 as stated fails: the account logs in, which registers an access and a refresh session,
  and then changes its password with its reset token; both sessions are still registered.
\<close>

theorem sessions_survive_ChangePassword:
  "fst (Login example_env first_reset example_credentials) =
     Return \<lparr>AccessToken = JWT SigningMethodHS256 example_access_claims ''secret'',
             RefreshTokenStr = JWT SigningMethodHS256 example_refresh_claims ''secret'',
             RefreshTokenExpTime = 1700003600 * Second\<rparr> \<and>
   fst (ChangePassword minute_later logged_in first_reset_token ''pw2'') = Return () \<and>
   sessions password_changed ''uuid-1'' =
     Some (JWT SigningMethodHS256 example_access_claims ''secret'', 1700000900) \<and>
   sessions password_changed ''uuid-2'' =
     Some (JWT SigningMethodHS256 example_refresh_claims ''secret'', 1700003600)"
proof -
  have registered: "sessions logged_in =
      [''uuid-1'' \<mapsto> (JWT SigningMethodHS256 example_access_claims ''secret'', 1700000900),
       ''uuid-2'' \<mapsto> (JWT SigningMethodHS256 example_refresh_claims ''secret'', 1700003600)]"
    by (simp add: logged_in_world)
  from change_after_login_eq show ?thesis
    by (simp add: login_eq password_changed_def registered)
qed

text \<open>
  C3, as the code has it. \<open>ChangePassword\<close> never touches the Session Store: whatever its
  outcome, every access and refresh session registered before it is registered after it,
  with the same value. Token values are not invalidated on password change.
\<close>

theorem ChangePassword_keeps_sessions:
  "sessions (snd (ChangePassword e w t password)) = sessions w"
  by (simp add: ChangePassword_def case_prod_beta UpdateSaltAndPassword_def
      UpdatePasswordToken_def split: option.splits json.splits sum.splits)

text \<open>C3, as the code has it, at the run above.\<close>

theorem ChangePassword_keeps_sessions_witness:
  "sessions (snd (ChangePassword minute_later logged_in first_reset_token ''pw2'')) =
     [''uuid-1'' \<mapsto> (JWT SigningMethodHS256 example_access_claims ''secret'', 1700000900),
      ''uuid-2'' \<mapsto> (JWT SigningMethodHS256 example_refresh_claims ''secret'', 1700003600)]"
  using ChangePassword_keeps_sessions [of minute_later logged_in first_reset_token "''pw2''"]
  by (simp add: logged_in_world)

subsection \<open>Login before verification\<close>

text \<open>
  C5. When the account found by the email is not verified and the password is the right
  one, \<open>Login\<close> returns the email-not-verified error \<open>LGU04\<close>, hence no token pair, and the
  Session Store is as before.
\<close>

theorem Login_unverified:
  assumes "GetAccount w \<lparr>filter_Email = Email account, filter_AccountID = []\<rparr> =
             (Inr regAccount, w1)"
    and "comparePassword (Password account) (Salt regAccount) (Password regAccount) = (None, True)"
    and "\<not> IsVerified regAccount"
  shows "Login e w account =
           (Error (NewAndPrintWithTag ''LGU04''
              (Some (errors_New (''email '' @ Email regAccount @ '' has not been verified'')))
              FRIENDLY_EMAIL_NOT_VERIFIED), w1) \<and>
         sessions w1 = sessions w"
  using assms GetAccount_keeps [OF assms(1)]
  by (simp add: Login_def)

text \<open>C5 at the example account before it verified its email.\<close>

theorem Login_unverified_witness:
  "GetAccount unverified_world \<lparr>filter_Email = ''a@x.com'', filter_AccountID = []\<rparr> =
     (Inr (example_account\<lparr>IsVerified := False\<rparr>), unverified_world) \<and>
   comparePassword ''pw1'' example_salt (Password example_account) = (None, True) \<and>
   \<not> IsVerified (example_account\<lparr>IsVerified := False\<rparr>) \<and>
   Login example_env unverified_world example_credentials =
     (Error (NewAndPrintWithTag ''LGU04''
        (Some (errors_New ''email a@x.com has not been verified''))
        FRIENDLY_EMAIL_NOT_VERIFIED), unverified_world) \<and>
   sessions unverified_world = Map.empty"
proof -
  have h1: "GetAccount unverified_world
              \<lparr>filter_Email = Email example_credentials, filter_AccountID = []\<rparr> =
            (Inr (example_account\<lparr>IsVerified := False\<rparr>), unverified_world)"
    by (simp add: unverified_world_def world_defs example_defs)
  have h2: "comparePassword (Password example_credentials)
              (Salt (example_account\<lparr>IsVerified := False\<rparr>))
              (Password (example_account\<lparr>IsVerified := False\<rparr>)) = (None, True)"
    by (simp add: hasher_defs example_defs)
  have h3: "\<not> IsVerified (example_account\<lparr>IsVerified := False\<rparr>)"
    by simp
  from Login_unverified [OF h1 h2 h3, of example_env] h1 h2
  show ?thesis
    by (simp add: example_credentials_def example_account_def unverified_world_def
        example_world_def)
qed

subsection \<open>Sign-out\<close>

text \<open>
  C6. After a \<open>SignOut\<close> that returned without error, \<open>RefreshToken\<close> with the refresh
  token whose claims were signed out (a token that still parses: valid signature, not
  expired) finds no entry for the refresh session id and returns the token-expired error
  \<open>RTU00\<close>.
\<close>

theorem RefreshToken_after_SignOut:
  assumes "SignOut w atClaims rtClaims = (Return (), w1)"
    and "ParseToken e t = (rtClaims, None)"
  shows "\<exists>rtUUID. rtClaims ''refresh_uuid'' = Some (JString rtUUID) \<and>
           fst (fst (RedisHelper_Get w1 rtUUID)) = blank \<and>
           fst (RefreshToken e w1 t) =
             Error (CError ''RTU00'' (Some (errors_New ''token_expired''))
                      FRIENDLY_TOKEN_EXPIRED TYPE_EXPIRED)"
proof -
  from assms(1) obtain atUUID rtUUID w' where
    rt: "rtClaims ''refresh_uuid'' = Some (JString rtUUID)" and
    del: "RedisHelper_Delete w' rtUUID = (None, w1)"
    by (auto simp: SignOut_def split: option.splits json.splits prod.splits)
  from del have "sessions w1 rtUUID = None"
    by (auto dest: RedisHelper_Delete_NoneD)
  then have empty: "fst (fst (RedisHelper_Get w1 rtUUID)) = blank"
    by (rule RedisHelper_Get_absent)
  then have "fst (RefreshToken e w1 t) =
             Error (CError ''RTU00'' (Some (errors_New ''token_expired''))
                      FRIENDLY_TOKEN_EXPIRED TYPE_EXPIRED)"
    using assms(2) rt
    by (auto simp: RefreshToken_def NewAndPrintWithTag_def split: prod.splits)
  with rt empty show ?thesis by blast
qed

text \<open>C6 at the example account: login, sign-out, refresh a minute later.\<close>

theorem RefreshToken_after_SignOut_witness:
  "SignOut logged_in example_access_claims example_refresh_claims = (Return (), signed_out) \<and>
   ParseToken minute_later (JWT SigningMethodHS256 example_refresh_claims ''secret'') =
     (example_refresh_claims, None) \<and>
   fst (fst (RedisHelper_Get signed_out ''uuid-2'')) = blank \<and>
   fst (RefreshToken minute_later signed_out
          (JWT SigningMethodHS256 example_refresh_claims ''secret'')) =
     Error (CError ''RTU00'' (Some (errors_New ''token_expired''))
              FRIENDLY_TOKEN_EXPIRED TYPE_EXPIRED)"
proof -
  have h1: "SignOut logged_in example_access_claims example_refresh_claims =
              (Return (), signed_out)"
    by (simp add: signed_out_def sign_out_eq)
  have h2: "ParseToken minute_later (JWT SigningMethodHS256 example_refresh_claims ''secret'') =
              (example_refresh_claims, None)"
    by (simp add: codec_defs example_defs example_refresh_claims_def Let_def)
  have h3: "example_refresh_claims ''refresh_uuid'' = Some (JString ''uuid-2'')"
    by (simp add: example_refresh_claims_def)
  from RefreshToken_after_SignOut [OF h1 h2] h1 h2 h3
  show ?thesis by auto
qed

text \<open>
  C10. When the deletion of the access session id fails, \<open>SignOut\<close> returns that error as
  \<open>SOU00\<close> without reading the refresh token's claims; the Session Store is as before, so
  the refresh session stays registered.
\<close>

theorem SignOut_stops_at_first_failure:
  assumes "atClaims ''access_uuid'' = Some (JString atUUID)"
    and "RedisHelper_Delete w atUUID = (Some err, w1)"
  shows "SignOut w atClaims rtClaims =
           (Error (NewAndPrintWithTag ''SOU00'' (Some err) FRIENDLY_MESSAGE), w1) \<and>
         sessions w1 = sessions w"
  using assms
  by (auto simp: SignOut_def RedisHelper_Delete_def split: prod.splits option.splits
      dest: io_keeps)

text \<open>C10 at the logged-in example account, with Redis failing at the first call.\<close>

theorem SignOut_stops_at_first_failure_witness:
  "example_access_claims ''access_uuid'' = Some (JString ''uuid-1'') \<and>
   RedisHelper_Delete redis_down ''uuid-1'' = (Some (io_error ''redis''), logged_in) \<and>
   SignOut redis_down example_access_claims example_refresh_claims =
     (Error (NewAndPrintWithTag ''SOU00'' (Some (io_error ''redis'')) FRIENDLY_MESSAGE),
      logged_in) \<and>
   sessions logged_in ''uuid-2'' =
     Some (JWT SigningMethodHS256 example_refresh_claims ''secret'', 1700003600)"
proof -
  have h1: "example_access_claims ''access_uuid'' = Some (JString ''uuid-1'')"
    by (simp add: example_access_claims_def)
  have h2: "RedisHelper_Delete redis_down ''uuid-1'' = (Some (io_error ''redis''), logged_in)"
    by (simp add: redis_down_def RedisHelper_Delete_def io_def logged_in_world
        first_reset_world example_world_def)
  have h3: "sessions logged_in ''uuid-2'' =
              Some (JWT SigningMethodHS256 example_refresh_claims ''secret'', 1700003600)"
    by (simp add: logged_in_world)
  from SignOut_stops_at_first_failure
         [where atClaims = example_access_claims and rtClaims = example_refresh_claims,
          OF h1 h2] h1 h2 h3
  show ?thesis by blast
qed

subsection \<open>Two password resets in succession\<close>

lemma ResetPassword_ReturnD:
  assumes "ResetPassword e w email = (Return (), w')"
  shows "\<exists>a rest.
           filter (matches \<lparr>filter_Email = email, filter_AccountID = []\<rparr>) (accounts w) = a # rest \<and>
           accounts w' =
             map (\<lambda>r. if AccountID r = AccountID a
                       then r\<lparr>PasswordToken :=
                              JWT SigningMethodHS256
                                [''email'' \<mapsto> JString email,
                                 ''exp'' \<mapsto> JNumber (of_int (Unix (now e + 24 * Hour)))]
                                (JWT_SECRET e)\<rparr>
                       else r) (accounts w) \<and>
           url_token (mail_url (last (outbox w'))) =
             JWT SigningMethodHS256
               [''email'' \<mapsto> JString email, ''exp'' \<mapsto> JNumber (of_int (Unix (now e + 24 * Hour)))]
               (JWT_SECRET e)"
proof -
  let ?tok = "JWT SigningMethodHS256
               [''email'' \<mapsto> JString email, ''exp'' \<mapsto> JNumber (of_int (Unix (now e + 24 * Hour)))]
               (JWT_SECRET e)"
  from assms obtain a wa wb m where
    get: "GetAccount w \<lparr>filter_Email = email, filter_AccountID = []\<rparr> = (Inr a, wa)" and
    upd: "UpdatePasswordToken wa (AccountID a) ?tok = (None, wb)" and
    send: "SendMail wb m = (None, w')" and
    m: "url_token (mail_url m) = ?tok"
    by (auto simp: ResetPassword_def CreateToken_def SignedString_def Let_def
        generateResetPasswordUrl_def
        split: prod.splits sum.splits option.splits if_splits)
  from get obtain rest where
    first: "filter (matches \<lparr>filter_Email = email, filter_AccountID = []\<rparr>) (accounts w) = a # rest"
    and wa: "accounts wa = accounts w"
    by (auto dest: GetAccount_InrD)
  from upd have wb: "accounts wb =
      map (\<lambda>r. if AccountID r = AccountID a then r\<lparr>PasswordToken := ?tok\<rparr> else r) (accounts wa)"
    by (auto simp: UpdatePasswordToken_def dest: update_where_NoneD)
  from send have w': "accounts w' = accounts wb" "outbox w' = outbox wb @ [m]"
    by (auto dest: SendMail_NoneD)
  from first wa wb w' m show ?thesis by auto
qed

text \<open>
  C7 as stated fails: two calls of \<open>ResetPassword\<close> within the same second mint the same
  token (same claims, same secret, deterministic signature), so the token minted by the
  first call is the one on file after the second, and \<open>ChangePassword\<close> with it succeeds.
\<close>

theorem same_second_resets_mint_one_token:
  "ResetPassword example_env example_world ''a@x.com'' = (Return (), first_reset) \<and>
   ResetPassword half_second_later first_reset ''a@x.com'' =
     (Return (), second_reset_same_second) \<and>
   url_token (mail_url (last (outbox first_reset))) = first_reset_token \<and>
   url_token (mail_url (last (outbox second_reset_same_second))) = first_reset_token \<and>
   fst (ChangePassword minute_later second_reset_same_second first_reset_token ''pw2'') =
     Return ()"
proof -
  have r1: "ResetPassword example_env example_world ''a@x.com'' = (Return (), first_reset)"
    by (simp add: first_reset_eq first_reset_world [symmetric])
  have r2: "ResetPassword half_second_later first_reset ''a@x.com'' =
              (Return (), second_reset_same_second)"
    by (simp add: second_reset_same_second_eq second_reset_same_second_world [symmetric])
  have m1: "url_token (mail_url (last (outbox first_reset))) = first_reset_token"
    by (simp add: first_reset_world)
  have m2: "url_token (mail_url (last (outbox second_reset_same_second))) = first_reset_token"
    by (simp add: second_reset_same_second_world)
  from r1 r2 m1 m2 change_after_same_second_eq show ?thesis by blast
qed

text \<open>
  C7, as the code has it. If \<open>ResetPassword\<close> succeeds twice in succession for the same
  email, the two calls fall into different Unix seconds, and both minted tokens (the ones
  in the mails) are still unexpired, then \<open>ChangePassword\<close> with the first token fails with
  the invalid-token error \<open>CPW03\<close> and changes nothing, while \<open>ChangePassword\<close> with the
  second token succeeds (no collaborator failing, salt and hash derived) and leaves the
  account with the new salt and hash and a blank \<open>PasswordToken\<close>.
\<close>

theorem later_reset_supersedes:
  assumes r1: "ResetPassword e1 w0 email = (Return (), w1)"
    and r2: "ResetPassword e2 w1 email = (Return (), w2)"
    and sec: "Unix (now e1) \<noteq> Unix (now e2)"
    and k2: "JWT_SECRET e2 = JWT_SECRET e1" and k3: "JWT_SECRET e3 = JWT_SECRET e1"
    and f1: "\<not> After (now e3) (time_Unix (Unix (now e1 + 24 * Hour)))"
    and f2: "\<not> After (now e3) (time_Unix (Unix (now e2 + 24 * Hour)))"
    and nf: "faults w2 = []"
    and salt: "generateSalt e3 = Inr salt"
    and hashed: "hashPassword e3 password salt = Inr hashed"
  shows "\<exists>(account :: hash Account) w3 account'.
           ChangePassword e3 w2 (url_token (mail_url (last (outbox w1)))) password =
             (Error (NewAndPrintWithTag ''CPW03''
                (Some (errors_New
                   (''token is different from token from database. email : '' @ Email account)))
                FRIENDLY_INVALID_TOKEN), w2) \<and>
           ChangePassword e3 w2 (url_token (mail_url (last (outbox w2)))) password =
             (Return (), w3) \<and>
           GetAccount w3 \<lparr>filter_Email = email, filter_AccountID = []\<rparr> = (Inr account', w3) \<and>
           PasswordToken account' = blank \<and> Password account' = hashed \<and> Salt account' = salt"
proof -
  let ?f = "\<lparr>filter_Email = email, filter_AccountID = []\<rparr>"
  let ?x1 = "Unix (now e1 + 24 * Hour)"
  let ?x2 = "Unix (now e2 + 24 * Hour)"
  let ?c1 = "[''email'' \<mapsto> JString email, ''exp'' \<mapsto> JNumber (of_int ?x1)]"
  let ?c2 = "[''email'' \<mapsto> JString email, ''exp'' \<mapsto> JNumber (of_int ?x2)]"
  let ?t1 = "JWT SigningMethodHS256 ?c1 (JWT_SECRET e1)"
  let ?t2 = "JWT SigningMethodHS256 ?c2 (JWT_SECRET e1)"
  from ResetPassword_ReturnD [OF r1] have m1: "url_token (mail_url (last (outbox w1))) = ?t1"
    by blast
  from ResetPassword_ReturnD [OF r2] k2 obtain a rest where
    first: "filter (matches ?f) (accounts w1) = a # rest" and
    rows: "accounts w2 =
             map (\<lambda>r. if AccountID r = AccountID a then r\<lparr>PasswordToken := ?t2\<rparr> else r)
               (accounts w1)" and
    m2: "url_token (mail_url (last (outbox w2))) = ?t2"
    by auto
  define b where "b = a\<lparr>PasswordToken := ?t2\<rparr>"
  have "filter (matches ?f) (accounts w2) =
          map (\<lambda>r. if AccountID r = AccountID a then r\<lparr>PasswordToken := ?t2\<rparr> else r)
            (filter (matches ?f) (accounts w1))"
    unfolding rows by (rule filter_matches_map) auto
  with first obtain rest' where first2: "filter (matches ?f) (accounts w2) = b # rest'"
    by (auto simp: b_def)
  have get: "GetAccount w2 ?f = (Inr b, w2)"
    using nf first2 by (rule GetAccount_no_faults)
  have p1: "ParseToken e3 ?t1 = (?c1, None)"
    using f1 k3 by (rule ParseToken_reset_token)
  have p2: "ParseToken e3 ?t2 = (?c2, None)"
    using f2 k3 by (rule ParseToken_reset_token)
  have "?x1 \<noteq> ?x2" using sec by (simp add: Unix_add_day)
  then have differ: "?t1 \<noteq> PasswordToken b"
    unfolding b_def by (simp add: reset_claims_differ)
  have same: "PasswordToken b = ?t2" by (simp add: b_def)
  have first_fails:
    "ChangePassword e3 w2 ?t1 password =
       (Error (NewAndPrintWithTag ''CPW03''
          (Some (errors_New
             (''token is different from token from database. email : '' @ Email b)))
          FRIENDLY_INVALID_TOKEN), w2)"
    using differ f1 by (simp add: ChangePassword_def p1 get)
  define gA :: "hash Account \<Rightarrow> hash Account" where
    "gA = (\<lambda>r. if AccountID r = AccountID b then r\<lparr>Salt := salt, Password := hashed\<rparr> else r)"
  define gB :: "hash Account \<Rightarrow> hash Account" where
    "gB = (\<lambda>r. if AccountID r = AccountID b then r\<lparr>PasswordToken := blank\<rparr> else r)"
  define w3 where "w3 = w2\<lparr>accounts := map gB (map gA (accounts w2))\<rparr>"
  have second_succeeds: "ChangePassword e3 w2 ?t2 password = (Return (), w3)"
    using f2
    by (simp add: ChangePassword_def p2 get same salt hashed UpdateSaltAndPassword_def
        UpdatePasswordToken_def update_where_no_faults nf w3_def gA_def gB_def)
  have "filter (matches ?f) (accounts w3) = map gB (map gA (filter (matches ?f) (accounts w2)))"
    by (simp add: w3_def gA_def gB_def filter_matches_map)
  then have first3: "filter (matches ?f) (accounts w3) = gB (gA b) # map gB (map gA rest')"
    by (simp add: first2)
  have "faults w3 = []" by (simp add: w3_def nf)
  then have get3: "GetAccount w3 ?f = (Inr (gB (gA b)), w3)"
    using first3 by (rule GetAccount_no_faults)
  have cleared: "PasswordToken (gB (gA b)) = blank \<and> Password (gB (gA b)) = hashed \<and>
                 Salt (gB (gA b)) = salt"
    by (simp add: gA_def gB_def)
  from first_fails second_succeeds get3 cleared show ?thesis
    unfolding m1 m2 by blast
qed

text \<open>C7, as the code has it, at the example account: resets a minute apart.\<close>

theorem later_reset_supersedes_witness:
  "ResetPassword example_env example_world ''a@x.com'' = (Return (), first_reset) \<and>
   ResetPassword minute_later first_reset ''a@x.com'' = (Return (), second_reset_minute_later) \<and>
   Unix (now example_env) \<noteq> Unix (now minute_later) \<and>
   faults second_reset_minute_later = [] \<and>
   (\<exists>(account :: hash Account) w3 account'.
      ChangePassword two_minutes_later second_reset_minute_later
          (url_token (mail_url (last (outbox first_reset)))) ''pw2'' =
        (Error (NewAndPrintWithTag ''CPW03''
           (Some (errors_New
              (''token is different from token from database. email : '' @ Email account)))
           FRIENDLY_INVALID_TOKEN), second_reset_minute_later) \<and>
      ChangePassword two_minutes_later second_reset_minute_later
          (url_token (mail_url (last (outbox second_reset_minute_later)))) ''pw2'' =
        (Return (), w3) \<and>
      GetAccount w3 \<lparr>filter_Email = ''a@x.com'', filter_AccountID = []\<rparr> = (Inr account', w3) \<and>
      PasswordToken account' = blank \<and>
      Password account' = Bcrypt 4 ''0123456789abcdef'' (bcrypt_key (''pw2'' @ example_salt)) \<and>
      Salt account' = example_salt)"
proof -
  have r1: "ResetPassword example_env example_world ''a@x.com'' = (Return (), first_reset)"
    by (simp add: first_reset_eq first_reset_world [symmetric])
  have r2: "ResetPassword minute_later first_reset ''a@x.com'' =
              (Return (), second_reset_minute_later)"
    by (simp add: second_reset_minute_later_eq second_reset_minute_later_world [symmetric])
  have sec: "Unix (now example_env) \<noteq> Unix (now minute_later)"
    by (simp add: Unix_def Second_def example_env_def minute_later_def)
  have k2: "JWT_SECRET minute_later = JWT_SECRET example_env"
    by (simp add: minute_later_def)
  have k3: "JWT_SECRET two_minutes_later = JWT_SECRET example_env"
    by (simp add: two_minutes_later_def)
  have f1: "\<not> After (now two_minutes_later) (time_Unix (Unix (now example_env + 24 * Hour)))"
    by (simp add: codec_defs example_defs)
  have f2: "\<not> After (now two_minutes_later) (time_Unix (Unix (now minute_later + 24 * Hour)))"
    by (simp add: codec_defs example_defs)
  have nf: "faults second_reset_minute_later = []"
    by (simp add: second_reset_minute_later_world example_world_def)
  have salt: "generateSalt two_minutes_later = Inr example_salt"
    by (simp add: generateSalt_def SALT_BYTES_def two_minutes_later_def example_env_def
        example_salt_def)
  have hashed: "hashPassword two_minutes_later ''pw2'' example_salt =
                  Inr (Bcrypt 4 ''0123456789abcdef'' (bcrypt_key (''pw2'' @ example_salt)))"
    by (simp add: hasher_defs two_minutes_later_def example_env_def example_salt_def)
  from later_reset_supersedes [OF r1 r2 sec k2 k3 f1 f2 nf salt hashed] r1 r2 sec nf
  show ?thesis by blast
qed

subsection \<open>Sign-up when the mail cannot be sent\<close>

text \<open>
  C8. When salt and hash are derived, the account and the profile are inserted (the first
  two collaborator calls go through, the email and the account id are new) and the sending
  of the verification mail fails, \<open>SignUp\<close> returns the sender's error, and the new account
  row and profile row are in the tables all the same: nothing is rolled back.
\<close>

theorem SignUp_mail_failure_keeps_rows:
  assumes "generateSalt e = Inr salt"
    and "hashPassword e (Password account) salt = Inr hashed"
    and "faults w = None # None # Some ft # rest"
    and "\<not> list_ex (\<lambda>r. Email r = Email account \<or>
                 AccountID r = (if AccountID account = [] then uuid_2 e else AccountID account))
             (accounts w)"
  shows "\<exists>inserted w'.
           SignUp e w account profile = (Error (io_error ''smtp''), w') \<and>
           accounts w' = accounts w @ [inserted] \<and>
           Email inserted = Email account \<and> Password inserted = hashed \<and>
           profiles w' = profiles w @ [profile\<lparr>Profile_AccountID := AccountID inserted\<rparr>] \<and>
           outbox w' = outbox w"
  using assms
  by (auto simp: SignUp_def CreateToken_def InsertAccount_def InsertProfile_def SendMail_def
      io_def duplicate_entry_def Let_def)

text \<open>C8 at a sign-up of a second account while the mail sender is down.\<close>

theorem SignUp_mail_failure_keeps_rows_witness:
  "generateSalt example_env = Inr example_salt \<and>
   hashPassword example_env ''pw3'' example_salt =
     Inr (Bcrypt 4 ''0123456789abcdef'' (bcrypt_key (''pw3'' @ example_salt))) \<and>
   faults mail_down = [None, None, Some AtExec] \<and>
   (\<exists>inserted w'.
      SignUp example_env mail_down new_credentials new_profile = (Error (io_error ''smtp''), w') \<and>
      accounts w' = [example_account, inserted] \<and>
      Email inserted = ''b@x.com'' \<and>
      Password inserted = Bcrypt 4 ''0123456789abcdef'' (bcrypt_key (''pw3'' @ example_salt)) \<and>
      profiles w' = [example_profile, new_profile\<lparr>Profile_AccountID := AccountID inserted\<rparr>] \<and>
      outbox w' = [])"
proof -
  have h1: "generateSalt example_env = Inr example_salt"
    by (simp add: generateSalt_def SALT_BYTES_def example_env_def example_salt_def)
  have h2: "hashPassword example_env (Password new_credentials) example_salt =
              Inr (Bcrypt 4 ''0123456789abcdef'' (bcrypt_key (''pw3'' @ example_salt)))"
    by (simp add: hasher_defs new_credentials_def example_env_def example_salt_def
        example_credentials_def)
  have h3: "faults mail_down = None # None # Some AtExec # []"
    by (simp add: mail_down_def example_world_def)
  have h4: "\<not> list_ex (\<lambda>r. Email r = Email new_credentials \<or>
                 AccountID r = (if AccountID new_credentials = [] then uuid_2 example_env
                                else AccountID new_credentials))
             (accounts mail_down)"
    by (simp add: mail_down_def example_world_def example_account_def new_credentials_def
        example_credentials_def example_env_def)
  from SignUp_mail_failure_keeps_rows [OF h1 h2 h3 h4, of new_profile] h1 h2 h3
  show ?thesis
    by (simp add: mail_down_def example_world_def new_credentials_def example_credentials_def)
qed

subsection \<open>Unguarded type assertions\<close>

text \<open>
  When the token parses, the three readers of claims panic on a claim that is absent or of
  another type.
\<close>

lemma assertions_panic:
  assumes "ParseToken e t = (claims, None)"
  shows "(\<And>x. claims ''exp'' \<noteq> Some (JNumber x)) \<Longrightarrow>
           fst (VerifyEmail e w t) = Panic \<and> fst (ChangePassword e w t password) = Panic"
    and "(\<And>s. claims ''email'' \<noteq> Some (JString s)) \<Longrightarrow>
           fst (VerifyEmail e w t) = Panic \<and> fst (ChangePassword e w t password) = Panic"
    and "(\<And>s. claims ''refresh_uuid'' \<noteq> Some (JString s)) \<Longrightarrow>
           fst (RefreshToken e w t) = Panic"
  using assms
  by (auto simp: VerifyEmail_def ChangePassword_def RefreshToken_def
      split: option.splits json.splits)

text \<open>
  C9. Whatever the clock, the secret and the state: the token that carries no claims and is
  signed with the configured secret parses without error, and \<open>VerifyEmail\<close>,
  \<open>ChangePassword\<close> and \<open>RefreshToken\<close> panic on it instead of returning an error; so they
  do on a signed token that carries \<open>exp\<close>, \<open>email\<close> and \<open>refresh_uuid\<close> at other types.
\<close>

theorem unguarded_assertions_panic:
  "snd (ParseToken e (SignedString SigningMethodHS256 Map.empty (JWT_SECRET e))) = None \<and>
   fst (VerifyEmail e w (SignedString SigningMethodHS256 Map.empty (JWT_SECRET e))) = Panic \<and>
   fst (ChangePassword e w (SignedString SigningMethodHS256 Map.empty (JWT_SECRET e)) password)
     = Panic \<and>
   fst (RefreshToken e w (SignedString SigningMethodHS256 Map.empty (JWT_SECRET e))) = Panic \<and>
   snd (ParseToken e (SignedString SigningMethodHS256
          [''exp'' \<mapsto> JString ''never'', ''email'' \<mapsto> JNumber 7, ''refresh_uuid'' \<mapsto> JBool True]
          (JWT_SECRET e))) = None \<and>
   fst (VerifyEmail e w (SignedString SigningMethodHS256
          [''exp'' \<mapsto> JString ''never'', ''email'' \<mapsto> JNumber 7, ''refresh_uuid'' \<mapsto> JBool True]
          (JWT_SECRET e))) = Panic \<and>
   fst (ChangePassword e w (SignedString SigningMethodHS256
          [''exp'' \<mapsto> JString ''never'', ''email'' \<mapsto> JNumber 7, ''refresh_uuid'' \<mapsto> JBool True]
          (JWT_SECRET e)) password) = Panic \<and>
   fst (RefreshToken e w (SignedString SigningMethodHS256
          [''exp'' \<mapsto> JString ''never'', ''email'' \<mapsto> JNumber 7, ''refresh_uuid'' \<mapsto> JBool True]
          (JWT_SECRET e))) = Panic"
  by (simp add: ParseToken_def SignedString_def VerifyEmail_def ChangePassword_def
      RefreshToken_def Valid_def VerifyExpiresAt_def VerifyIssuedAt_def VerifyNotBefore_def
      Let_def)

text \<open>
  C9 at the example surroundings; and at tokens that the service itself mints: the reset
  token presented to \<open>RefreshToken\<close>, the refresh token presented to \<open>VerifyEmail\<close> and to
  \<open>ChangePassword\<close>.
\<close>

theorem unguarded_assertions_panic_witness:
  "fst (VerifyEmail example_env example_world (JWT SigningMethodHS256 Map.empty ''secret'')) =
     Panic \<and>
   fst (ChangePassword example_env example_world (JWT SigningMethodHS256 Map.empty ''secret'')
          ''pw2'') = Panic \<and>
   fst (RefreshToken example_env example_world (JWT SigningMethodHS256 Map.empty ''secret'')) =
     Panic \<and>
   fst (RefreshToken minute_later first_reset first_reset_token) = Panic \<and>
   fst (VerifyEmail minute_later logged_in
          (JWT SigningMethodHS256 example_refresh_claims ''secret'')) = Panic \<and>
   fst (ChangePassword minute_later logged_in
          (JWT SigningMethodHS256 example_refresh_claims ''secret'') ''pw2'') = Panic"
proof -
  have minted: "ParseToken minute_later (JWT SigningMethodHS256 example_refresh_claims ''secret'')
                  = (example_refresh_claims, None)"
    by (simp add: codec_defs example_defs example_refresh_claims_def Let_def)
  have reset: "ParseToken minute_later first_reset_token =
     ([''email'' \<mapsto> JString ''a@x.com'', ''exp'' \<mapsto> JNumber 1700086400], None)"
    by (simp add: parse_first_reset_token)
  have lookups: "example_refresh_claims ''exp'' = Some (JNumber 1700003600)"
    "example_refresh_claims ''email'' = None"
    by (simp_all add: example_refresh_claims_def)
  have a: "fst (RefreshToken minute_later first_reset first_reset_token) = Panic"
    by (simp add: RefreshToken_def reset)
  have b: "fst (VerifyEmail minute_later logged_in
             (JWT SigningMethodHS256 example_refresh_claims ''secret'')) = Panic"
    by (simp add: VerifyEmail_def minted lookups)
  have c: "fst (ChangePassword minute_later logged_in
             (JWT SigningMethodHS256 example_refresh_claims ''secret'') ''pw2'') = Panic"
    by (simp add: ChangePassword_def minted lookups)
  from unguarded_assertions_panic [of example_env example_world "''pw2''"] a b c
  show ?thesis
    by (simp add: SignedString_def example_env_def)
qed

end
